theory Spec2Isabelle
  imports Complex_Main
begin

section \<open>JavaScript values and array helpers\<close>

text \<open>
  Timestamps (\<open>Date.now()\<close>), durations and coordinates are reals; millisecond timestamps
  and their sums and differences are integers far below \<open>2^53\<close>, on which the arithmetic
  of JavaScript is exact. Counters that start at 0 and are only incremented (or decremented
  with a floor at 0) are naturals. In the Intent Detection, a division whose divisor can be
  0 is written with \<open>js_div\<close>, which returns \<open>None\<close> where JavaScript would produce
  \<open>Infinity\<close> or \<open>NaN\<close>.
\<close>

definition js_div :: "real \<Rightarrow> real \<Rightarrow> real option" where
  "js_div a b = (if b = 0 then None else Some (a / b))"

text \<open>\<open>xs.slice(-n)\<close> for a positive \<open>n\<close>: the last \<open>n\<close> elements of \<open>xs\<close>.\<close>

definition slice_last :: "nat \<Rightarrow> 'a list \<Rightarrow> 'a list" where
  "slice_last n xs = drop (length xs - n) xs"

section \<open>JavaScript numbers (IEEE 754 binary64)\<close>

text \<open>
  The scores of the Behavior Profile are computed as the code computes them: in binary64
  arithmetic, where every operation returns the representable number nearest to the exact
  result (ties to the even significand), overflows to an infinity, and where \<open>0 / 0\<close>,
  \<open>Infinity - Infinity\<close> and \<open>0 * Infinity\<close> are \<open>NaN\<close>. A \<open>number\<close> is a finite
  value, an infinity or \<open>NaN\<close>. Negative zero is identified with zero: it differs from
  zero only as a divisor, and the divisors below are counts, lengths and positive
  constants.
\<close>

datatype number = Finite real | PosInfinity | NegInfinity | NaN

text \<open>\<open>pow2 k\<close> is \<open>2^k\<close> for an integer \<open>k\<close>; \<open>bit_length n\<close> is the number of binary digits of \<open>n\<close>.\<close>

definition pow2 :: "int \<Rightarrow> real" where
  "pow2 k = (if 0 \<le> k then 2 ^ nat k else 1 / 2 ^ nat (- k))"

fun bit_length :: "nat \<Rightarrow> nat" where
  "bit_length n = (if n = 0 then 0 else Suc (bit_length (n div 2)))"

declare bit_length.simps [simp del]

text \<open>
  The binary exponent of a non-zero real \<open>x\<close>: the \<open>e\<close> with \<open>2^e \<le> |x| < 2^(e+1)\<close>, but
  at least \<open>-1022\<close> (below that the numbers are subnormal and share the exponent
  \<open>-1022\<close>).
\<close>

definition binade :: "real \<Rightarrow> int" where
  "binade x =
     max (- 1022)
       (if 1 \<le> \<bar>x\<bar> then int (bit_length (nat \<lfloor>\<bar>x\<bar>\<rfloor>)) - 1
        else - int (bit_length (nat \<lceil>1 / \<bar>x\<bar>\<rceil> - 1)))"

definition round_half_even :: "real \<Rightarrow> int" where
  "round_half_even y =
     (let f = \<lfloor>y\<rfloor>; d = y - real_of_int f
      in if d < 1 / 2 then f else if 1 / 2 < d then f + 1
         else if even f then f else f + 1)"

text \<open>
  \<open>double x\<close> is the binary64 number nearest to the real \<open>x\<close>: \<open>x\<close> is rounded to a
  multiple of \<open>2^(e-52)\<close>, where \<open>e\<close> is its binary exponent (53 significant bits), and a
  result of magnitude \<open>2^1024\<close> or more is an infinity. A decimal literal of the source,
  such as \<open>0.6\<close>, denotes \<open>double 0.6\<close>.
\<close>

definition double :: "real \<Rightarrow> number" where
  "double x =
     (if x = 0 then Finite 0
      else
        let q = pow2 (binade x - 52);
            y = real_of_int (round_half_even (x / q)) * q
        in if 2 ^ 1024 \<le> \<bar>y\<bar> then (if 0 < x then PosInfinity else NegInfinity)
           else Finite y)"

text \<open>The operators \<open>+\<close>, \<open>-\<close>, \<open>*\<close>, \<open>/\<close> and \<open>>\<close> on numbers, \<open>Math.min\<close> and \<open>Math.max\<close>.\<close>

fun num_add :: "number \<Rightarrow> number \<Rightarrow> number" where
  "num_add NaN b = NaN"
| "num_add a NaN = NaN"
| "num_add PosInfinity NegInfinity = NaN"
| "num_add NegInfinity PosInfinity = NaN"
| "num_add PosInfinity b = PosInfinity"
| "num_add a PosInfinity = PosInfinity"
| "num_add NegInfinity b = NegInfinity"
| "num_add a NegInfinity = NegInfinity"
| "num_add (Finite x) (Finite y) = double (x + y)"

fun num_sub :: "number \<Rightarrow> number \<Rightarrow> number" where
  "num_sub NaN b = NaN"
| "num_sub a NaN = NaN"
| "num_sub PosInfinity PosInfinity = NaN"
| "num_sub NegInfinity NegInfinity = NaN"
| "num_sub PosInfinity b = PosInfinity"
| "num_sub a PosInfinity = NegInfinity"
| "num_sub NegInfinity b = NegInfinity"
| "num_sub a NegInfinity = PosInfinity"
| "num_sub (Finite x) (Finite y) = double (x - y)"

text \<open>The sign of a product or quotient with an infinity; it is \<open>NaN\<close> for the sign 0.\<close>

definition signed_infinity :: "real \<Rightarrow> number" where
  "signed_infinity s = (if s = 0 then NaN else if 0 < s then PosInfinity else NegInfinity)"

fun num_mul :: "number \<Rightarrow> number \<Rightarrow> number" where
  "num_mul NaN b = NaN"
| "num_mul a NaN = NaN"
| "num_mul PosInfinity PosInfinity = PosInfinity"
| "num_mul PosInfinity NegInfinity = NegInfinity"
| "num_mul NegInfinity PosInfinity = NegInfinity"
| "num_mul NegInfinity NegInfinity = PosInfinity"
| "num_mul PosInfinity (Finite y) = signed_infinity y"
| "num_mul NegInfinity (Finite y) = signed_infinity (- y)"
| "num_mul (Finite x) PosInfinity = signed_infinity x"
| "num_mul (Finite x) NegInfinity = signed_infinity (- x)"
| "num_mul (Finite x) (Finite y) = double (x * y)"

fun num_div :: "number \<Rightarrow> number \<Rightarrow> number" where
  "num_div NaN b = NaN"
| "num_div a NaN = NaN"
| "num_div (Finite x) (Finite y) = (if y = 0 then signed_infinity x else double (x / y))"
| "num_div (Finite x) b = Finite 0"
| "num_div PosInfinity (Finite y) = (if 0 \<le> y then PosInfinity else NegInfinity)"
| "num_div NegInfinity (Finite y) = (if 0 \<le> y then NegInfinity else PosInfinity)"
| "num_div a b = NaN"

fun num_gt :: "number \<Rightarrow> number \<Rightarrow> bool" where
  "num_gt NaN b = False"
| "num_gt a NaN = False"
| "num_gt a PosInfinity = False"
| "num_gt NegInfinity b = False"
| "num_gt PosInfinity b = True"
| "num_gt a NegInfinity = True"
| "num_gt (Finite x) (Finite y) = (y < x)"

fun Math_min :: "number \<Rightarrow> number \<Rightarrow> number" where
  "Math_min NaN b = NaN"
| "Math_min a NaN = NaN"
| "Math_min NegInfinity b = NegInfinity"
| "Math_min a NegInfinity = NegInfinity"
| "Math_min PosInfinity b = b"
| "Math_min a PosInfinity = a"
| "Math_min (Finite x) (Finite y) = Finite (min x y)"

fun Math_max :: "number \<Rightarrow> number \<Rightarrow> number" where
  "Math_max NaN b = NaN"
| "Math_max a NaN = NaN"
| "Math_max PosInfinity b = PosInfinity"
| "Math_max a PosInfinity = PosInfinity"
| "Math_max NegInfinity b = b"
| "Math_max a NegInfinity = a"
| "Math_max (Finite x) (Finite y) = Finite (max x y)"

text \<open>\<open>xs.reduce((a, b) => a + b, 0)\<close> on a list of finite numbers.\<close>

definition reduce_sum :: "real list \<Rightarrow> number" where
  "reduce_sum xs = foldl (\<lambda>a b. num_add a (Finite b)) (Finite 0) xs"

section \<open>Behavior Profile (useBehaviorProfile)\<close>

datatype Personality = Calm | Assertive | Inviting | Curious | Hesitant

text \<open>
  \<open>averageHoverDuration\<close> is the result of a division by the hover counter, which can be
  0: it is a \<open>number\<close>. The other numeric fields hold timestamps, their sums and
  differences, and pointer velocities. A counter or a duration enters the arithmetic of a
  score as the finite number of its value (\<open>Finite\<close>), which is exact for the integers
  below \<open>2^53\<close>.
\<close>

record BehaviorMetrics =
  hoverCount :: nat
  totalHoverDuration :: real
  averageHoverDuration :: number
  hoverVelocity :: "real list"
  clickCount :: nat
  clickSpeed :: "real list"
  doubleClickCount :: nat
  hoverWithoutClick :: nat
  approachRetreatCount :: nat
  directApproaches :: nat
  lastInteractionTime :: real

record BehaviorProfile =
  personality :: Personality
  confidence :: number
  engagement :: number
  familiarity :: number

definition getDefaultMetrics :: BehaviorMetrics where
  "getDefaultMetrics =
     \<lparr>hoverCount = 0, totalHoverDuration = 0, averageHoverDuration = Finite 0,
      hoverVelocity = [], clickCount = 0, clickSpeed = [], doubleClickCount = 0,
      hoverWithoutClick = 0, approachRetreatCount = 0, directApproaches = 0,
      lastInteractionTime = 0\<rparr>"

text \<open>The local constants of \<open>calculateProfile\<close>, one definition each.\<close>

definition avgClickSpeed :: "BehaviorMetrics \<Rightarrow> number" where
  "avgClickSpeed m =
     (if length (clickSpeed m) > 0
      then num_div (reduce_sum (clickSpeed m)) (Finite (real (length (clickSpeed m))))
      else Finite 1000)"

definition clickSpeedConfidence :: "BehaviorMetrics \<Rightarrow> number" where
  "clickSpeedConfidence m =
     Math_max (Finite 0) (num_sub (Finite 1) (num_div (avgClickSpeed m) (Finite 2000)))"

definition directApproachRatio :: "BehaviorMetrics \<Rightarrow> number" where
  "directApproachRatio m =
     (if hoverCount m > 0
      then num_div (Finite (real (directApproaches m))) (Finite (real (hoverCount m)))
      else Finite 0)"

definition calculateProfile :: "BehaviorMetrics \<Rightarrow> BehaviorProfile" where
  "calculateProfile m =
     (let totalInteractions = clickCount m + hoverCount m;
          familiarity = Math_min (Finite 1) (num_div (Finite (real totalInteractions)) (Finite 50));
          confidence = num_add (num_mul (clickSpeedConfidence m) (double 0.6))
                               (num_mul (directApproachRatio m) (double 0.4));
          hoverEngagement = Math_min (Finite 1) (num_div (averageHoverDuration m) (Finite 1500));
          retreatPenalty = Math_min (double 0.5)
                             (num_mul (Finite (real (approachRetreatCount m))) (double 0.1));
          engagement = Math_max (Finite 0) (num_sub hoverEngagement retreatPenalty);
          personality =
            (if num_gt familiarity (double 0.7) \<and> num_gt confidence (double 0.6) then Calm
             else if num_gt confidence (double 0.7) \<and> directApproaches m > 3 then Assertive
             else if hoverWithoutClick m > 5 \<or> approachRetreatCount m > 3 then Inviting
             else if num_gt engagement (double 0.6)
                     \<and> num_gt (averageHoverDuration m) (Finite 800) then Curious
             else if approachRetreatCount m > 1 \<or> num_gt (avgClickSpeed m) (Finite 1500)
             then Hesitant
             else Calm)
      in \<lparr>personality = personality,
          confidence = Math_min (Finite 1) (Math_max (Finite 0) confidence),
          engagement = Math_min (Finite 1) (Math_max (Finite 0) engagement),
          familiarity = familiarity\<rparr>)"

text \<open>
  The hook's state: the \<open>metrics\<close> state variable and the four refs. \<open>null\<close> refs are
  \<open>None\<close>. React compares the dependencies of an effect by identity and every call of
  \<open>setMetrics\<close> installs a new object: \<open>metricsVersion\<close> counts these calls and stands
  for the identity of the \<open>metrics\<close> object.
\<close>

record BehaviorHook =
  metrics :: BehaviorMetrics
  metricsVersion :: nat
  hoverStartTime :: real
  lastMousePosition :: "(real \<times> real) option"
  isHovering :: bool
  approachStartDistance :: "real option"

record DOMRect =
  left :: real
  top :: real
  width :: real
  height :: real

definition setMetrics :: "(BehaviorMetrics \<Rightarrow> BehaviorMetrics) \<Rightarrow> BehaviorHook \<Rightarrow> BehaviorHook" where
  "setMetrics updater h =
     h\<lparr>metrics := updater (metrics h), metricsVersion := metricsVersion h + 1\<rparr>"

text \<open>
  Each handler takes the clock readings it makes (\<open>Date.now()\<close>) as arguments, in the
  order in which the source takes them.
\<close>

definition onHoverStart :: "real \<Rightarrow> real \<Rightarrow> real \<Rightarrow> real \<Rightarrow> BehaviorHook \<Rightarrow> BehaviorHook" where
  "onHoverStart t1 clientX clientY t2 h =
     setMetrics (\<lambda>prev. prev\<lparr>hoverCount := hoverCount prev + 1, lastInteractionTime := t2\<rparr>)
       (h\<lparr>hoverStartTime := t1, isHovering := True,
          lastMousePosition := Some (clientX, clientY)\<rparr>)"

definition onHoverEnd :: "real \<Rightarrow> BehaviorHook \<Rightarrow> BehaviorHook" where
  "onHoverEnd t h =
     (if \<not> isHovering h then h
      else
        let duration = t - hoverStartTime h
        in setMetrics
             (\<lambda>prev.
                let newTotalDuration = totalHoverDuration prev + duration;
                    newHoverCount = hoverCount prev
                in prev\<lparr>totalHoverDuration := newTotalDuration,
                        averageHoverDuration :=
                          num_div (Finite newTotalDuration) (Finite (real newHoverCount)),
                        hoverWithoutClick := hoverWithoutClick prev + 1\<rparr>)
             (h\<lparr>isHovering := False\<rparr>))"

definition onMouseMove :: "real \<Rightarrow> real \<Rightarrow> DOMRect \<Rightarrow> BehaviorHook \<Rightarrow> BehaviorHook" where
  "onMouseMove clientX clientY buttonRect h =
     (case lastMousePosition h of
        None \<Rightarrow> h\<lparr>lastMousePosition := Some (clientX, clientY)\<rparr>
      | Some (lx, ly) \<Rightarrow>
          let dx = clientX - lx;
              dy = clientY - ly;
              velocity = sqrt (dx * dx + dy * dy);
              buttonCenterX = left buttonRect + width buttonRect / 2;
              buttonCenterY = top buttonRect + height buttonRect / 2;
              currentDistance =
                sqrt ((clientX - buttonCenterX)\<^sup>2 + (clientY - buttonCenterY)\<^sup>2);
              startDistance = (case approachStartDistance h of
                                 None \<Rightarrow> currentDistance | Some d \<Rightarrow> d);
              h1 = h\<lparr>approachStartDistance := Some startDistance\<rparr>;
              h2 = (if velocity > 15 \<and> currentDistance < startDistance * 0.5
                    then setMetrics
                           (\<lambda>prev. prev\<lparr>directApproaches := directApproaches prev + 1\<rparr>) h1
                    else h1);
              h3 = (if isHovering h
                    then setMetrics
                           (\<lambda>prev. prev\<lparr>hoverVelocity :=
                                            slice_last 20 (hoverVelocity prev) @ [velocity]\<rparr>) h2
                    else h2)
          in h3\<lparr>lastMousePosition := Some (clientX, clientY)\<rparr>)"

definition onClick :: "real \<Rightarrow> real \<Rightarrow> real \<Rightarrow> BehaviorHook \<Rightarrow> BehaviorHook" where
  "onClick t1 t2 t3 h =
     (let clickTime = t1 - hoverStartTime h
      in setMetrics
           (\<lambda>prev.
              let isDoubleClick =
                    (length (clickSpeed prev) > 0 \<and> t2 - lastInteractionTime prev < 400)
              in prev\<lparr>clickCount := clickCount prev + 1,
                      clickSpeed := slice_last 10 (clickSpeed prev) @ [clickTime],
                      doubleClickCount := (if isDoubleClick then doubleClickCount prev + 1
                                           else doubleClickCount prev),
                      hoverWithoutClick := nat (max 0 (int (hoverWithoutClick prev) - 1)),
                      lastInteractionTime := t3\<rparr>) h)"

definition onApproachRetreat :: "BehaviorHook \<Rightarrow> BehaviorHook" where
  "onApproachRetreat h =
     (setMetrics (\<lambda>prev. prev\<lparr>approachRetreatCount := approachRetreatCount prev + 1\<rparr>) h)
       \<lparr>approachStartDistance := None\<rparr>"

text \<open>
  \<open>resetProfile\<close> installs the default metrics and leaves the refs as they are, also
  \<open>isHovering\<close>; the entry it removes from the storage is in \<open>dispatch_behavior\<close> below.
\<close>

definition resetProfile :: "BehaviorHook \<Rightarrow> BehaviorHook" where
  "resetProfile h = setMetrics (\<lambda>prev. getDefaultMetrics) h"

text \<open>
  The operations the hook returns, as events, and a run of the hook over a sequence of
  them.
\<close>

datatype BehaviorEvent =
    HoverStart real real real real
  | HoverEnd real
  | MouseMove real real DOMRect
  | Click real real real
  | ApproachRetreat
  | ResetProfile

fun handle_behavior :: "BehaviorEvent \<Rightarrow> BehaviorHook \<Rightarrow> BehaviorHook" where
  "handle_behavior (HoverStart t1 x y t2) h = onHoverStart t1 x y t2 h"
| "handle_behavior (HoverEnd t) h = onHoverEnd t h"
| "handle_behavior (MouseMove x y r) h = onMouseMove x y r h"
| "handle_behavior (Click t1 t2 t3) h = onClick t1 t2 t3 h"
| "handle_behavior ApproachRetreat h = onApproachRetreat h"
| "handle_behavior ResetProfile h = resetProfile h"

fun run_behavior :: "BehaviorEvent list \<Rightarrow> BehaviorHook \<Rightarrow> BehaviorHook" where
  "run_behavior [] h = h"
| "run_behavior (e # es) h = run_behavior es (handle_behavior e h)"

text \<open>The refs as \<open>useRef\<close> initialises them, around a given initial \<open>metrics\<close>.\<close>

definition initialBehaviorHook :: "BehaviorMetrics \<Rightarrow> BehaviorHook" where
  "initialBehaviorHook m =
     \<lparr>metrics = m, metricsVersion = 0, hoverStartTime = 0, lastMousePosition = None,
      isHovering = False, approachStartDistance = None\<rparr>"

section \<open>Intent Detection (useIntentDetection)\<close>

datatype Intent = Browsing | Searching | Reading | Comparing | Deciding | Leaving

datatype Direction = Up | Down | NoDirection

datatype Layout = Expanded | Compact | Focused | Minimal

text \<open>
  \<open>position\<close> is \<open>scrollY / containerHeight\<close>; it is \<open>None\<close> where the container height
  is 0 and JavaScript stores \<open>Infinity\<close> or \<open>NaN\<close>.
\<close>

record ScrollPattern =
  timestamp :: real
  position :: "real option"
  velocity :: real
  direction :: Direction

record FocusEvent =
  timestamp :: real
  element :: "string option"
  duration :: real

record IntentSignals =
  scrollPatterns :: "ScrollPattern list"
  focusEvents :: "FocusEvent list"
  pauseCount :: nat
  directionChanges :: nat
  averageVelocity :: real
  timeOnSurface :: real
  lastActivity :: real

record IntentProfile =
  currentIntent :: Intent
  confidence :: real
  attention :: real
  urgency :: real
  suggestedLayout :: Layout

text \<open>
  The refs of the hook. \<open>pauseTimer\<close> is \<open>True\<close> while a timeout is pending: a scroll
  clears the pending one and arms a new one, so at most one is pending.
\<close>

record IntentHook =
  signals :: IntentSignals
  lastScrollPosition :: real
  lastScrollTime :: real
  lastDirection :: Direction
  pauseTimer :: bool
  surfaceEntryTime :: real
  currentFocusElement :: "string option"
  focusStartTime :: real

text \<open>
  The initial state; the four arguments are the clock readings of the initial
  \<open>lastActivity\<close>, \<open>lastScrollTime\<close>, \<open>surfaceEntryTime\<close> and \<open>focusStartTime\<close>.
\<close>

definition initialSignals :: "real \<Rightarrow> IntentSignals" where
  "initialSignals t =
     \<lparr>scrollPatterns = [], focusEvents = [], pauseCount = 0, directionChanges = 0,
      averageVelocity = 0, timeOnSurface = 0, lastActivity = t\<rparr>"

definition initialIntentHook :: "real \<Rightarrow> real \<Rightarrow> real \<Rightarrow> real \<Rightarrow> IntentHook" where
  "initialIntentHook t0 t1 t2 t3 =
     \<lparr>signals = initialSignals t0, lastScrollPosition = 0, lastScrollTime = t1,
      lastDirection = NoDirection, pauseTimer = False, surfaceEntryTime = t2,
      currentFocusElement = None, focusStartTime = t3\<rparr>"

definition setSignals :: "(IntentSignals \<Rightarrow> IntentSignals) \<Rightarrow> IntentHook \<Rightarrow> IntentHook" where
  "setSignals updater h = h\<lparr>signals := updater (signals h)\<rparr>"

definition onScroll_intent :: "real \<Rightarrow> real \<Rightarrow> real \<Rightarrow> IntentHook \<Rightarrow> IntentHook" where
  "onScroll_intent now scrollY containerHeight h =
     (let timeDelta = now - lastScrollTime h;
          positionDelta = scrollY - lastScrollPosition h;
          velocity = (if timeDelta > 0 then \<bar>positionDelta\<bar> / timeDelta * 1000 else 0);
          direction = (if positionDelta > 5 then Down
                       else if positionDelta < - 5 then Up else NoDirection);
          isDirectionChange = (direction \<noteq> NoDirection \<and> lastDirection h \<noteq> NoDirection
                               \<and> direction \<noteq> lastDirection h);
          newPattern = \<lparr>ScrollPattern.timestamp = now,
                        position = js_div scrollY containerHeight,
                        velocity = velocity, direction = direction\<rparr>;
          h1 = setSignals
                 (\<lambda>prev.
                    let patterns = slice_last 30 (scrollPatterns prev) @ [newPattern];
                        avgVelocity = foldl (\<lambda>a b. a + ScrollPattern.velocity b) 0 patterns
                                        / real (length patterns)
                    in prev\<lparr>scrollPatterns := patterns,
                            directionChanges := (if isDirectionChange
                                                 then directionChanges prev + 1
                                                 else directionChanges prev),
                            averageVelocity := avgVelocity,
                            lastActivity := now\<rparr>)
                 (h\<lparr>pauseTimer := True\<rparr>)
      in h1\<lparr>lastScrollPosition := scrollY, lastScrollTime := now,
             lastDirection := (if direction \<noteq> NoDirection then direction
                               else lastDirection h)\<rparr>)"

text \<open>The callback of the 800ms pause timer, run at time \<open>t\<close> if the timer is pending.\<close>

definition pauseTimeout :: "real \<Rightarrow> IntentHook \<Rightarrow> IntentHook" where
  "pauseTimeout t h =
     (if pauseTimer h
      then setSignals (\<lambda>prev. prev\<lparr>pauseCount := pauseCount prev + 1, lastActivity := t\<rparr>)
             (h\<lparr>pauseTimer := False\<rparr>)
      else h)"

text \<open>The callback of the one-second interval.\<close>

definition surfaceTick :: "real \<Rightarrow> IntentHook \<Rightarrow> IntentHook" where
  "surfaceTick t h = setSignals (\<lambda>prev. prev\<lparr>timeOnSurface := t - surfaceEntryTime h\<rparr>) h"

text \<open>A string or \<open>null\<close> is truthy when it is a non-empty string.\<close>

definition truthy :: "string option \<Rightarrow> bool" where
  "truthy s = (case s of None \<Rightarrow> False | Some v \<Rightarrow> v \<noteq> [])"

definition onFocusChange :: "real \<Rightarrow> string option \<Rightarrow> IntentHook \<Rightarrow> IntentHook" where
  "onFocusChange now elementId h =
     (let h1 = (if truthy (currentFocusElement h)
                then
                  let duration = now - focusStartTime h;
                      newEvent = \<lparr>FocusEvent.timestamp = now,
                                  element = currentFocusElement h, duration = duration\<rparr>
                  in setSignals
                       (\<lambda>prev. prev\<lparr>focusEvents := slice_last 20 (focusEvents prev) @ [newEvent],
                                     lastActivity := now\<rparr>) h
                else h)
      in h1\<lparr>currentFocusElement := elementId, focusStartTime := now\<rparr>)"

definition onMouseMove_intent :: "real \<Rightarrow> real \<Rightarrow> DOMRect \<Rightarrow> real \<Rightarrow> IntentHook \<Rightarrow> IntentHook" where
  "onMouseMove_intent x y containerRect t h =
     (let edgeThreshold = 50;
          nearEdge = (x < edgeThreshold \<or> x > width containerRect - edgeThreshold
                      \<or> y < edgeThreshold \<or> y > height containerRect - edgeThreshold)
      in if nearEdge then setSignals (\<lambda>prev. prev\<lparr>lastActivity := t\<rparr>) h else h)"

text \<open>
  \<open>resetSignals\<close>: the two arguments are the clock readings for \<open>surfaceEntryTime\<close>
  and for the new \<open>lastActivity\<close>.
\<close>

definition resetSignals :: "real \<Rightarrow> real \<Rightarrow> IntentHook \<Rightarrow> IntentHook" where
  "resetSignals t1 t2 h = setSignals (\<lambda>prev. initialSignals t2) (h\<lparr>surfaceEntryTime := t1\<rparr>)"

datatype IntentEvent =
    Scroll real real real
  | PauseTimeout real
  | SurfaceTick real
  | FocusChange real "string option"
  | IntentMouseMove real real DOMRect real
  | ResetSignals real real

fun handle_intent :: "IntentEvent \<Rightarrow> IntentHook \<Rightarrow> IntentHook" where
  "handle_intent (Scroll now scrollY containerHeight) h = onScroll_intent now scrollY containerHeight h"
| "handle_intent (PauseTimeout t) h = pauseTimeout t h"
| "handle_intent (SurfaceTick t) h = surfaceTick t h"
| "handle_intent (FocusChange now elementId) h = onFocusChange now elementId h"
| "handle_intent (IntentMouseMove x y r t) h = onMouseMove_intent x y r t h"
| "handle_intent (ResetSignals t1 t2) h = resetSignals t1 t2 h"

fun run_intent :: "IntentEvent list \<Rightarrow> IntentHook \<Rightarrow> IntentHook" where
  "run_intent [] h = h"
| "run_intent (e # es) h = run_intent es (handle_intent e h)"

text \<open>\<open>v || 0\<close> on a number: 0 when \<open>v\<close> is 0 (or \<open>NaN\<close>), else \<open>v\<close>.\<close>

definition or_zero :: "real \<Rightarrow> real" where
  "or_zero v = (if v = 0 then 0 else v)"

definition recentVelocity :: "IntentSignals \<Rightarrow> real" where
  "recentVelocity s =
     or_zero (foldl (\<lambda>a b. a + velocity b) 0 (slice_last 5 (scrollPatterns s)) / 5)"

definition avgFocusDuration :: "IntentSignals \<Rightarrow> real" where
  "avgFocusDuration s =
     (if length (focusEvents s) > 0
      then foldl (\<lambda>a b. a + FocusEvent.duration b) 0 (focusEvents s)
             / real (length (focusEvents s))
      else 0)"

text \<open>\<open>calculateIntent\<close> reads the clock once (\<open>Date.now()\<close>): the argument \<open>now\<close>.\<close>

definition calculateIntent :: "real \<Rightarrow> IntentSignals \<Rightarrow> IntentProfile" where
  "calculateIntent now s =
     (let recentPauses = pauseCount s;
          recentDirectionChanges = directionChanges s;
          (currentIntent, confidence, attention, urgency) =
            (if recentVelocity s > 300 \<and> recentPauses < 2 \<and> recentDirectionChanges < 3
             then (Searching, min 0.9 (recentVelocity s / 500), 0.4, 0.8)
             else if recentVelocity s < 100 \<and> recentPauses > 3 \<and> avgFocusDuration s > 1000
             then (Reading, min 0.9 (avgFocusDuration s / 3000), 0.9, 0.1)
             else if recentDirectionChanges > 5 \<and> recentVelocity s > 50
                     \<and> recentVelocity s < 300
             then (Comparing, min 0.85 (real recentDirectionChanges / 10), 0.7, 0.5)
             else if recentPauses > 5 \<and> recentVelocity s < 50 \<and> avgFocusDuration s > 500
             then (Deciding, min 0.85 (real recentPauses / 8), 0.85, 0.6)
             else if now - lastActivity s > 5000 \<or> recentVelocity s > 500
             then (Leaving, 0.6, 0.2, 0.9)
             else (Browsing, 0.5, 0.5, 0.3));
          suggestedLayout =
            (case currentIntent of
               Searching \<Rightarrow> Compact
             | Reading \<Rightarrow> Focused
             | Comparing \<Rightarrow> Expanded
             | Deciding \<Rightarrow> Focused
             | Leaving \<Rightarrow> Minimal
             | Browsing \<Rightarrow> Expanded)
      in \<lparr>currentIntent = currentIntent, confidence = confidence, attention = attention,
          urgency = urgency, suggestedLayout = suggestedLayout\<rparr>)"

section \<open>Interaction Memory (useInteractionMemory)\<close>

datatype InteractionType = Glance | Study | Engage | Return

datatype EmotionalSignature = Curious | Impatient | Thorough | Distracted

datatype RevealSpeed = Slow | Medium | Fast

record MemoryLayer =
  timestamp :: real
  interactionType :: InteractionType
  duration :: real
  focusPoints :: "(real \<times> real) list"
  scrollDepth :: real
  emotionalSignature :: EmotionalSignature

record InteractionMemory =
  visitCount :: nat
  totalTimeSpent :: real
  layers :: "MemoryLayer list"
  lastVisit :: real
  recognitionLevel :: real
  revealProgress :: real
  preferredRevealSpeed :: RevealSpeed

record Session =
  startTime :: real
  focusPoints :: "(real \<times> real) list"
  isActive :: bool
  scrollDepth :: real

text \<open>
  The hook's state: \<open>memoryVersion\<close> counts the calls of \<open>setMemory\<close>, as
  \<open>metricsVersion\<close> does for the Behavior Profile.
\<close>

record MemoryHook =
  memory :: InteractionMemory
  memoryVersion :: nat
  currentSession :: Session

definition getDefaultMemory :: InteractionMemory where
  "getDefaultMemory =
     \<lparr>visitCount = 0, totalTimeSpent = 0, layers = [], lastVisit = 0,
      recognitionLevel = 0, revealProgress = 0, preferredRevealSpeed = Medium\<rparr>"

definition initialMemoryHook :: "InteractionMemory \<Rightarrow> MemoryHook" where
  "initialMemoryHook m =
     \<lparr>memory = m, memoryVersion = 0,
      currentSession = \<lparr>startTime = 0, Session.focusPoints = [], isActive = False,
                        Session.scrollDepth = 0\<rparr>\<rparr>"

definition setMemory :: "(InteractionMemory \<Rightarrow> InteractionMemory) \<Rightarrow> MemoryHook \<Rightarrow> MemoryHook" where
  "setMemory updater h =
     h\<lparr>memory := updater (memory h), memoryVersion := memoryVersion h + 1\<rparr>"

definition setCurrentSession :: "(Session \<Rightarrow> Session) \<Rightarrow> MemoryHook \<Rightarrow> MemoryHook" where
  "setCurrentSession updater h = h\<lparr>currentSession := updater (currentSession h)\<rparr>"

text \<open>
  \<open>timeSinceLastVisit\<close> is computed when the hook renders, at clock reading \<open>now\<close>;
  \<open>None\<close> is \<open>Infinity\<close>.
\<close>

definition timeSinceLastVisit :: "real \<Rightarrow> InteractionMemory \<Rightarrow> real option" where
  "timeSinceLastVisit now m = (if lastVisit m \<noteq> 0 then Some (now - lastVisit m) else None)"

definition isReturningUser :: "real \<Rightarrow> InteractionMemory \<Rightarrow> bool" where
  "isReturningUser now m =
     ((case timeSinceLastVisit now m of None \<Rightarrow> True | Some d \<Rightarrow> d > 60000)
      \<and> visitCount m > 0)"

text \<open>The loop of \<open>calculateAverageMovement\<close>, from index 1, with its accumulator.\<close>

fun totalMovement :: "real \<Rightarrow> (real \<times> real) list \<Rightarrow> real" where
  "totalMovement acc ((x0, y0) # (x1, y1) # ps) =
     (let dx = x1 - x0; dy = y1 - y0
      in totalMovement (acc + sqrt (dx * dx + dy * dy)) ((x1, y1) # ps))"
| "totalMovement acc ps = acc"

definition calculateAverageMovement :: "(real \<times> real) list \<Rightarrow> real" where
  "calculateAverageMovement points =
     (if length points < 2 then 0
      else totalMovement 0 points / real (length points - 1))"

definition onEnter :: "real \<Rightarrow> MemoryHook \<Rightarrow> MemoryHook" where
  "onEnter t h =
     h\<lparr>currentSession := \<lparr>startTime = t, Session.focusPoints = [], isActive = True,
                           Session.scrollDepth = 0\<rparr>\<rparr>"

text \<open>
  \<open>onLeave\<close>: \<open>tr\<close> is the clock reading of the render that computed
  \<open>timeSinceLastVisit\<close> and \<open>isReturningUser\<close>; \<open>t1\<close>, \<open>t2\<close>, \<open>t3\<close> are the readings for
  the duration, the layer's timestamp and \<open>lastVisit\<close>.
\<close>

definition onLeave :: "real \<Rightarrow> real \<Rightarrow> real \<Rightarrow> real \<Rightarrow> MemoryHook \<Rightarrow> MemoryHook" where
  "onLeave tr t1 t2 t3 h =
     (let session = currentSession h in
      if \<not> isActive session then h
      else
        let duration = t1 - startTime session;
            interactionType =
              (if isReturningUser tr (memory h) then Return
               else if duration < 500 then Glance
               else if duration < 2000 then Engage
               else Study);
            avgMovement = calculateAverageMovement (Session.focusPoints session);
            emotionalSignature =
              (if avgMovement > 50 \<and> duration < 1000 then Impatient
               else if duration > 3000 \<and> Session.scrollDepth session > 0.5 then Thorough
               else if avgMovement > 30 then Distracted
               else Curious);
            newLayer = \<lparr>MemoryLayer.timestamp = t2, interactionType = interactionType,
                        duration = duration,
                        focusPoints = slice_last 20 (Session.focusPoints session),
                        scrollDepth = Session.scrollDepth session,
                        emotionalSignature = emotionalSignature\<rparr>;
            h1 = setMemory
                   (\<lambda>prev.
                      let newVisitCount = visitCount prev + 1;
                          newTotalTime = totalTimeSpent prev + duration;
                          decayFactor =
                            (case timeSinceLastVisit tr (memory h) of
                               None \<Rightarrow> 0.5
                             | Some d \<Rightarrow> max 0.5 (1 - d / (7 * 24 * 60 * 60 * 1000)));
                          recognitionGrowth = 0.1 * (if interactionType = Study then 2 else 1);
                          newRecognition =
                            min 1 (recognitionLevel prev * decayFactor + recognitionGrowth);
                          revealIncrease =
                            (if interactionType = Study then 0.15
                             else if interactionType = Engage then 0.08
                             else if interactionType = Return then 0.1 else 0.02);
                          newRevealProgress = min 1 (revealProgress prev + revealIncrease);
                          recentLayers = slice_last 5 (layers prev) @ [newLayer];
                          avgDuration = foldl (\<lambda>a b. a + MemoryLayer.duration b) 0 recentLayers
                                          / real (length recentLayers);
                          preferredRevealSpeed =
                            (if avgDuration > 3000 then Slow
                             else if avgDuration > 1500 then Medium else Fast)
                      in \<lparr>visitCount = newVisitCount, totalTimeSpent = newTotalTime,
                          layers = slice_last 50 (layers prev) @ [newLayer],
                          lastVisit = t3, recognitionLevel = newRecognition,
                          revealProgress = newRevealProgress,
                          preferredRevealSpeed = preferredRevealSpeed\<rparr>) h
        in setCurrentSession (\<lambda>prev. prev\<lparr>isActive := False\<rparr>) h1)"

definition onMouseMove_memory :: "real \<Rightarrow> real \<Rightarrow> MemoryHook \<Rightarrow> MemoryHook" where
  "onMouseMove_memory x y h =
     (if \<not> isActive (currentSession h) then h
      else setCurrentSession
             (\<lambda>prev. prev\<lparr>Session.focusPoints :=
                              slice_last 50 (Session.focusPoints prev) @ [(x, y)]\<rparr>) h)"

definition onScroll_memory :: "real \<Rightarrow> MemoryHook \<Rightarrow> MemoryHook" where
  "onScroll_memory depth h =
     setCurrentSession
       (\<lambda>prev. prev\<lparr>Session.scrollDepth := max (Session.scrollDepth prev) depth\<rparr>) h"

definition currentMood :: "InteractionMemory \<Rightarrow> EmotionalSignature" where
  "currentMood m =
     (if length (layers m) > 0
      then emotionalSignature (layers m ! (length (layers m) - 1))
      else EmotionalSignature.Curious)"

text \<open>
  \<open>resetMemory\<close> installs the default memory and leaves the session as it is; the entry
  it removes from the storage is in \<open>dispatch_memory\<close> below.
\<close>

definition resetMemory :: "MemoryHook \<Rightarrow> MemoryHook" where
  "resetMemory h = setMemory (\<lambda>prev. getDefaultMemory) h"

datatype MemoryEvent =
    Enter real
  | Leave real real real real
  | MemoryMouseMove real real
  | MemoryScroll real
  | ResetMemory

fun handle_memory :: "MemoryEvent \<Rightarrow> MemoryHook \<Rightarrow> MemoryHook" where
  "handle_memory (Enter t) h = onEnter t h"
| "handle_memory (Leave tr t1 t2 t3) h = onLeave tr t1 t2 t3 h"
| "handle_memory (MemoryMouseMove x y) h = onMouseMove_memory x y h"
| "handle_memory (MemoryScroll depth) h = onScroll_memory depth h"
| "handle_memory ResetMemory h = resetMemory h"

fun run_memory :: "MemoryEvent list \<Rightarrow> MemoryHook \<Rightarrow> MemoryHook" where
  "run_memory [] h = h"
| "run_memory (e # es) h = run_memory es (handle_memory e h)"

section \<open>Persistence in localStorage\<close>

text \<open>
  \<open>localStorage\<close> is a map from keys to strings; \<open>getItem\<close> returns \<open>null\<close> (\<open>None\<close>)
  for an absent key. \<open>JSON.parse\<close> throws a \<open>SyntaxError\<close> on a text that is not JSON.
  A JSON text is optional whitespace followed by a value, and a value starts with one of
  \<open>{ [ " -\<close>, a digit, or the first letter of \<open>true\<close>, \<open>false\<close>, \<open>null\<close>: a text that
  starts otherwise is rejected here. The rest of the grammar and the reading of the value
  as an accumulator are the argument \<open>decode\<close> (\<open>None\<close> where the text is rejected).
  \<open>JSON.stringify\<close> is the argument \<open>stringify\<close> of the functions that write.
\<close>

datatype js_error = SyntaxError

type_synonym Storage = "string \<rightharpoonup> string"

definition json_whitespace :: "char \<Rightarrow> bool" where
  "json_whitespace c = (c = CHR 0x20 \<or> c = CHR 0x09 \<or> c = CHR 0x0A \<or> c = CHR 0x0D)"

definition json_value_start :: "char \<Rightarrow> bool" where
  "json_value_start c = (c = CHR 0x22 \<or> c \<in> set ''{[-0123456789tfn'')"

definition JSON_parse :: "(string \<Rightarrow> 'a option) \<Rightarrow> string \<Rightarrow> js_error + 'a" where
  "JSON_parse decode text =
     (case dropWhile json_whitespace text of
        [] \<Rightarrow> Inl SyntaxError
      | c # _ \<Rightarrow>
          if \<not> json_value_start c then Inl SyntaxError
          else (case decode text of None \<Rightarrow> Inl SyntaxError | Some v \<Rightarrow> Inr v))"

definition storageKey_behavior :: "string \<Rightarrow> string" where
  "storageKey_behavior componentId = ''cognitive_btn_'' @ componentId"

definition storageKey_memory :: "string \<Rightarrow> string" where
  "storageKey_memory cardId = ''memory_card_'' @ cardId"

text \<open>
  The initialisers of the \<open>metrics\<close> and \<open>memory\<close> state; \<open>window\<close> says whether
  \<open>typeof window\<close> is defined. A non-empty string is truthy.
\<close>

definition loadMetrics ::
  "bool \<Rightarrow> (string \<Rightarrow> BehaviorMetrics option) \<Rightarrow> Storage \<Rightarrow> string \<Rightarrow> js_error + BehaviorMetrics" where
  "loadMetrics window decode localStorage componentId =
     (if \<not> window then Inr getDefaultMetrics
      else case localStorage (storageKey_behavior componentId) of
             None \<Rightarrow> Inr getDefaultMetrics
           | Some stored \<Rightarrow>
               if stored \<noteq> [] then JSON_parse decode stored else Inr getDefaultMetrics)"

definition loadMemory ::
  "bool \<Rightarrow> (string \<Rightarrow> InteractionMemory option) \<Rightarrow> Storage \<Rightarrow> string \<Rightarrow> js_error + InteractionMemory" where
  "loadMemory window decode localStorage cardId =
     (if \<not> window then Inr getDefaultMemory
      else case localStorage (storageKey_memory cardId) of
             None \<Rightarrow> Inr getDefaultMemory
           | Some stored \<Rightarrow>
               if stored \<noteq> [] then JSON_parse decode stored else Inr getDefaultMemory)"

text \<open>The persisting effects: \<open>localStorage.setItem(storageKey, JSON.stringify(...))\<close>.\<close>

definition persistMetrics ::
  "(BehaviorMetrics \<Rightarrow> string) \<Rightarrow> string \<Rightarrow> BehaviorMetrics \<Rightarrow> Storage \<Rightarrow> Storage" where
  "persistMetrics stringify componentId m localStorage =
     localStorage(storageKey_behavior componentId \<mapsto> stringify m)"

definition persistMemory ::
  "(InteractionMemory \<Rightarrow> string) \<Rightarrow> string \<Rightarrow> InteractionMemory \<Rightarrow> Storage \<Rightarrow> Storage" where
  "persistMemory stringify cardId m localStorage =
     localStorage(storageKey_memory cardId \<mapsto> stringify m)"

text \<open>
  A hook in the browser, with the storage it runs against. Mounting initialises the state
  and runs the effects once. A reset removes the hook's entry from the storage
  (\<open>localStorage.removeItem(storageKey)\<close>); after an event the persisting effect runs
  again when the state object it depends on was replaced. \<open>useIntentDetection\<close> has no
  effect that touches the storage and never reads its \<open>surfaceId\<close>.
\<close>

definition mount_behavior ::
  "(string \<Rightarrow> BehaviorMetrics option) \<Rightarrow> (BehaviorMetrics \<Rightarrow> string) \<Rightarrow> string \<Rightarrow> Storage
     \<Rightarrow> js_error + (BehaviorHook \<times> Storage)" where
  "mount_behavior decode stringify componentId localStorage =
     (case loadMetrics True decode localStorage componentId of
        Inl e \<Rightarrow> Inl e
      | Inr m \<Rightarrow> Inr (initialBehaviorHook m, persistMetrics stringify componentId m localStorage))"

definition dispatch_behavior ::
  "(BehaviorMetrics \<Rightarrow> string) \<Rightarrow> string \<Rightarrow> BehaviorEvent \<Rightarrow> BehaviorHook \<times> Storage
     \<Rightarrow> BehaviorHook \<times> Storage" where
  "dispatch_behavior stringify componentId e w =
     (let h' = handle_behavior e (fst w);
          localStorage = (if e = ResetProfile
                          then (snd w)(storageKey_behavior componentId := None)
                          else snd w)
      in (h', if metricsVersion h' \<noteq> metricsVersion (fst w)
              then persistMetrics stringify componentId (metrics h') localStorage
              else localStorage))"

fun runWorld_behavior ::
  "(BehaviorMetrics \<Rightarrow> string) \<Rightarrow> string \<Rightarrow> BehaviorEvent list \<Rightarrow> BehaviorHook \<times> Storage
     \<Rightarrow> BehaviorHook \<times> Storage" where
  "runWorld_behavior stringify componentId [] w = w"
| "runWorld_behavior stringify componentId (e # es) w =
     runWorld_behavior stringify componentId es (dispatch_behavior stringify componentId e w)"

definition mount_memory ::
  "(string \<Rightarrow> InteractionMemory option) \<Rightarrow> (InteractionMemory \<Rightarrow> string) \<Rightarrow> string \<Rightarrow> Storage
     \<Rightarrow> js_error + (MemoryHook \<times> Storage)" where
  "mount_memory decode stringify cardId localStorage =
     (case loadMemory True decode localStorage cardId of
        Inl e \<Rightarrow> Inl e
      | Inr m \<Rightarrow> Inr (initialMemoryHook m, persistMemory stringify cardId m localStorage))"

definition dispatch_memory ::
  "(InteractionMemory \<Rightarrow> string) \<Rightarrow> string \<Rightarrow> MemoryEvent \<Rightarrow> MemoryHook \<times> Storage
     \<Rightarrow> MemoryHook \<times> Storage" where
  "dispatch_memory stringify cardId e w =
     (let h' = handle_memory e (fst w);
          localStorage = (if e = ResetMemory
                          then (snd w)(storageKey_memory cardId := None)
                          else snd w)
      in (h', if memoryVersion h' \<noteq> memoryVersion (fst w)
              then persistMemory stringify cardId (memory h') localStorage
              else localStorage))"

fun runWorld_memory ::
  "(InteractionMemory \<Rightarrow> string) \<Rightarrow> string \<Rightarrow> MemoryEvent list \<Rightarrow> MemoryHook \<times> Storage
     \<Rightarrow> MemoryHook \<times> Storage" where
  "runWorld_memory stringify cardId [] w = w"
| "runWorld_memory stringify cardId (e # es) w =
     runWorld_memory stringify cardId es (dispatch_memory stringify cardId e w)"

definition mount_intent ::
  "real \<Rightarrow> real \<Rightarrow> real \<Rightarrow> real \<Rightarrow> string \<Rightarrow> Storage \<Rightarrow> IntentHook \<times> Storage" where
  "mount_intent t0 t1 t2 t3 surfaceId localStorage =
     (initialIntentHook t0 t1 t2 t3, localStorage)"

definition dispatch_intent :: "string \<Rightarrow> IntentEvent \<Rightarrow> IntentHook \<times> Storage \<Rightarrow> IntentHook \<times> Storage" where
  "dispatch_intent surfaceId e w = (handle_intent e (fst w), snd w)"

fun runWorld_intent ::
  "string \<Rightarrow> IntentEvent list \<Rightarrow> IntentHook \<times> Storage \<Rightarrow> IntentHook \<times> Storage" where
  "runWorld_intent surfaceId [] w = w"
| "runWorld_intent surfaceId (e # es) w =
     runWorld_intent surfaceId es (dispatch_intent surfaceId e w)"

section \<open>Definitions for the statements\<close>

text \<open>A score lies in the unit interval.\<close>

definition in_unit :: "real \<Rightarrow> bool" where
  "in_unit x = (0 \<le> x \<and> x \<le> 1)"

text \<open>
  A number lies in the unit interval; a number is not negative (and not \<open>NaN\<close>). An
  invariant of the runs of the Behavior Profile without reset: while a hover session is
  open the hover counter is positive, and the average hover duration is not \<open>NaN\<close>.
\<close>

definition number_in_unit :: "number \<Rightarrow> bool" where
  "number_in_unit x = (case x of Finite r \<Rightarrow> 0 \<le> r \<and> r \<le> 1 | _ \<Rightarrow> False)"

definition num_nonneg :: "number \<Rightarrow> bool" where
  "num_nonneg x = (case x of Finite r \<Rightarrow> 0 \<le> r | PosInfinity \<Rightarrow> True | _ \<Rightarrow> False)"

definition hover_inv :: "BehaviorHook \<Rightarrow> bool" where
  "hover_inv h = ((isHovering h \<longrightarrow> 0 < hoverCount (metrics h))
                  \<and> averageHoverDuration (metrics h) \<noteq> NaN)"

text \<open>
  An invariant of the runs of the Interaction Memory: its two stored scores lie in the
  unit interval.
\<close>

definition memory_inv :: "MemoryHook \<Rightarrow> bool" where
  "memory_inv h = (in_unit (recognitionLevel (memory h)) \<and> in_unit (revealProgress (memory h)))"

text \<open>
  Five scroll events, 100ms apart and 40px further down each time, on a surface mounted at
  time 1000: each has the computed velocity 400 px/s.
\<close>

definition five_scrolls :: "IntentEvent list" where
  "five_scrolls = [Scroll 1100 40 1000, Scroll 1200 80 1000, Scroll 1300 120 1000,
                   Scroll 1400 160 1000, Scroll 1500 200 1000]"

text \<open>
  One Interaction Memory session before it is closed: entered at time 1000, two pointer
  samples at the same point (no movement), scrolled to depth 0.6.
\<close>

definition study_session :: "MemoryEvent list" where
  "study_session = [Enter 1000, MemoryMouseMove 5 5, MemoryMouseMove 5 5, MemoryScroll 0.6]"

text \<open>
  Invariants of a hook together with its storage: the entry under the hook's key is the
  serialisation of the current accumulator.
\<close>

definition behavior_world_inv ::
  "(BehaviorMetrics \<Rightarrow> string) \<Rightarrow> string \<Rightarrow> BehaviorHook \<times> Storage \<Rightarrow> bool" where
  "behavior_world_inv stringify componentId w =
     (snd w (storageKey_behavior componentId) = Some (stringify (metrics (fst w))))"

definition memory_world_inv ::
  "(InteractionMemory \<Rightarrow> string) \<Rightarrow> string \<Rightarrow> MemoryHook \<times> Storage \<Rightarrow> bool" where
  "memory_world_inv stringify cardId w =
     (snd w (storageKey_memory cardId) = Some (stringify (memory (fst w))))"

text \<open>
  A small serialisation used in the examples of persistence: a counter \<open>n\<close> as the JSON
  array of \<open>n\<close> ones and a zero, and its inverse. With it, a Behavior Profile accumulator
  that differs from the defaults in its retreat counter only is written as that counter
  and read back; for the Interaction Memory, the accumulator after one session of 2500ms
  is written as its visit counter and read back.
\<close>

definition count_text :: "nat \<Rightarrow> string" where
  "count_text n = ''['' @ concat (replicate n ''1,'') @ ''0]''"

definition count_of_text :: "string \<Rightarrow> nat option" where
  "count_of_text text =
     (let n = length (filter (\<lambda>c. c = CHR ''1'') text)
      in if text = count_text n then Some n else None)"

definition stringify_retreats :: "BehaviorMetrics \<Rightarrow> string" where
  "stringify_retreats m = count_text (approachRetreatCount m)"

definition decode_retreats :: "string \<Rightarrow> BehaviorMetrics option" where
  "decode_retreats text =
     (case count_of_text text of
        None \<Rightarrow> None
      | Some n \<Rightarrow> Some (getDefaultMetrics\<lparr>approachRetreatCount := n\<rparr>))"

definition one_session_memory :: InteractionMemory where
  "one_session_memory =
     \<lparr>visitCount = 1, totalTimeSpent = 2500,
      layers = [\<lparr>MemoryLayer.timestamp = 3500, interactionType = Study, duration = 2500,
                 focusPoints = [], scrollDepth = 0,
                 emotionalSignature = EmotionalSignature.Curious\<rparr>],
      lastVisit = 3500, recognitionLevel = 0.2, revealProgress = 0.15,
      preferredRevealSpeed = Medium\<rparr>"

definition stringify_visits :: "InteractionMemory \<Rightarrow> string" where
  "stringify_visits m = count_text (visitCount m)"

definition decode_visits :: "string \<Rightarrow> InteractionMemory option" where
  "decode_visits text =
     (case count_of_text text of
        None \<Rightarrow> None
      | Some n \<Rightarrow> if n = 0 then Some getDefaultMemory
                  else if n = 1 then Some one_session_memory else None)"

text \<open>
  The personality rules as the specification words them (its section 4.1), computed from
  the accumulator: familiarity is min(1, (clicks + hovers) / 50); confidence is
  0.6 * clickSpeedConfidence + 0.4 * directApproachRatio, where clickSpeedConfidence is
  max(0, 1 - average click latency / 2000), the average click latency is the mean of the
  click-speed history (1000 when it is empty), and directApproachRatio is
  directApproaches / hovers (0 if there is no hover); engagement is
  max(0, min(1, average hover duration / 1500) - min(0.5, 0.1 * retreats)); the
  personality is the first match of the rule chain. \<open>clamp01\<close> clamps a score to [0,1].
\<close>

definition averageClickLatency :: "BehaviorMetrics \<Rightarrow> number" where
  "averageClickLatency m =
     (if clickSpeed m = [] then Finite 1000
      else num_div (reduce_sum (clickSpeed m)) (Finite (real (length (clickSpeed m)))))"

definition spec_familiarity :: "BehaviorMetrics \<Rightarrow> number" where
  "spec_familiarity m =
     Math_min (Finite 1) (num_div (Finite (real (clickCount m + hoverCount m))) (Finite 50))"

definition spec_clickSpeedConfidence :: "BehaviorMetrics \<Rightarrow> number" where
  "spec_clickSpeedConfidence m =
     Math_max (Finite 0) (num_sub (Finite 1) (num_div (averageClickLatency m) (Finite 2000)))"

definition spec_directApproachRatio :: "BehaviorMetrics \<Rightarrow> number" where
  "spec_directApproachRatio m =
     (if hoverCount m = 0 then Finite 0
      else num_div (Finite (real (directApproaches m))) (Finite (real (hoverCount m))))"

definition spec_confidence :: "BehaviorMetrics \<Rightarrow> number" where
  "spec_confidence m =
     num_add (num_mul (double 0.6) (spec_clickSpeedConfidence m))
             (num_mul (double 0.4) (spec_directApproachRatio m))"

definition spec_engagement :: "BehaviorMetrics \<Rightarrow> number" where
  "spec_engagement m =
     Math_max (Finite 0)
       (num_sub (Math_min (Finite 1) (num_div (averageHoverDuration m) (Finite 1500)))
                (Math_min (double 0.5)
                   (num_mul (double 0.1) (Finite (real (approachRetreatCount m))))))"

definition spec_personality :: "BehaviorMetrics \<Rightarrow> Personality" where
  "spec_personality m =
     (if num_gt (spec_familiarity m) (double 0.7) \<and> num_gt (spec_confidence m) (double 0.6)
      then Calm
      else if num_gt (spec_confidence m) (double 0.7) \<and> directApproaches m > 3
      then Assertive
      else if hoverWithoutClick m > 5 \<or> approachRetreatCount m > 3
      then Inviting
      else if num_gt (spec_engagement m) (double 0.6)
              \<and> num_gt (averageHoverDuration m) (Finite 800)
      then Personality.Curious
      else if approachRetreatCount m > 1 \<or> num_gt (averageClickLatency m) (Finite 1500)
      then Hesitant
      else Calm)"

definition clamp01 :: "number \<Rightarrow> number" where
  "clamp01 x = Math_min (Finite 1) (Math_max (Finite 0) x)"

section \<open>Facts about the numbers\<close>

text \<open>
  The values of the decimal literals of the source and of the roundings the examples
  below go through, each computed from the definition of \<open>double\<close>.
\<close>

lemmas double_eval =
  double_def binade_def round_half_even_def pow2_def bit_length.simps Let_def

lemma double_0_1: "double 0.1 = Finite (3602879701896397 / 36028797018963968)"
  by (simp add: double_eval)

lemma double_0_3: "double 0.3 = Finite (5404319552844595 / 18014398509481984)"
  by (simp add: double_eval)

lemma double_0_4: "double 0.4 = Finite (3602879701896397 / 9007199254740992)"
  by (simp add: double_eval)

lemma double_0_5: "double 0.5 = Finite (1 / 2)"
  by (simp add: double_eval)

lemma double_0_6: "double 0.6 = Finite (5404319552844595 / 9007199254740992)"
  by (simp add: double_eval)

lemma double_0_7: "double 0.7 = Finite (3152519739159347 / 4503599627370496)"
  by (simp add: double_eval)


lemma double_value_0: "double 0 = Finite 0"
  by (simp add: double_eval)

lemma double_value_1: "double (1 / 10) = Finite (3602879701896397 / 36028797018963968)"
  by (simp add: double_eval)

lemma double_value_2: "double (12980742146337070512478121581609 / 81129638414606681695789005144064) = Finite (1441151880758559 / 9007199254740992)"
  by (simp add: double_eval)

lemma double_value_3: "double (3602879701896397 / 18014398509481984) = Finite (3602879701896397 / 18014398509481984)"
  by (simp add: double_eval)

lemma double_value_4: "double (11 / 50) = Finite (7926335344172073 / 36028797018963968)"
  by (simp add: double_eval)

lemma double_value_5: "double (5404319552844595 / 18014398509481984) = Finite (5404319552844595 / 18014398509481984)"
  by (simp add: double_eval)

lemma double_value_6: "double (3 / 10) = Finite (5404319552844595 / 18014398509481984)"
  by (simp add: double_eval)

lemma double_value_7: "double (2 / 5) = Finite (3602879701896397 / 9007199254740992)"
  by (simp add: double_eval)

lemma double_value_8: "double (1 / 2) = Finite (1 / 2)"
  by (simp add: double_eval)

lemma double_value_9: "double (43810004743887607575294107493335 / 81129638414606681695789005144064) = Finite (607985949695017 / 1125899906842624)"
  by (simp add: double_eval)

lemma double_value_10: "double (3 / 5) = Finite (5404319552844595 / 9007199254740992)"
  by (simp add: double_eval)

lemma double_value_11: "double (10808639105689191 / 18014398509481984) = Finite (1351079888211149 / 2251799813685248)"
  by (simp add: double_eval)

lemma double_value_12: "double (7 / 10) = Finite (3152519739159347 / 4503599627370496)"
  by (simp add: double_eval)

lemma double_value_13: "double (6305039478318695 / 9007199254740992) = Finite (6305039478318695 / 9007199254740992)"
  by (simp add: double_eval)

lemma double_value_14: "double (4 / 5) = Finite (3602879701896397 / 4503599627370496)"
  by (simp add: double_eval)

lemma double_value_15: "double (32425917317067571 / 36028797018963968) = Finite (8106479329266893 / 9007199254740992)"
  by (simp add: double_eval)

lemma double_value_16: "double 200 = Finite 200"
  by (simp add: double_eval)

lemmas double_values =
  double_value_0 double_value_1 double_value_2 double_value_3 double_value_4
  double_value_5 double_value_6 double_value_7 double_value_8 double_value_9
  double_value_10 double_value_11 double_value_12 double_value_13 double_value_14
  double_value_15 double_value_16

lemma num_mul_commute: "num_mul a b = num_mul b a"
  by (cases a; cases b) (simp_all add: mult.commute)

section \<open>Behavior Profile: the personality rules\<close>

lemma averageClickLatency_eq: "averageClickLatency m = avgClickSpeed m"
  by (simp add: averageClickLatency_def avgClickSpeed_def)

lemma spec_clickSpeedConfidence_eq: "spec_clickSpeedConfidence m = clickSpeedConfidence m"
  by (simp add: spec_clickSpeedConfidence_def clickSpeedConfidence_def averageClickLatency_eq)

lemma spec_directApproachRatio_eq: "spec_directApproachRatio m = directApproachRatio m"
  by (simp add: spec_directApproachRatio_def directApproachRatio_def)

text \<open>
  C4. For every accumulator, the personality that \<open>calculateProfile\<close> returns is the one
  the rule chain selects from the accumulator, the first matching rule winning:
  familiarity above 0.7 and confidence above 0.6 give calm; else confidence above 0.7 and
  more than 3 direct approaches give assertive; else more than 5 hovers without click or
  more than 3 retreats give inviting; else engagement above 0.6 and an average hover
  duration above 800 give curious; else more than 1 retreat or an average click latency
  above 1500 give hesitant; else calm. The scores are those of the specification,
  computed from the accumulator in the arithmetic of the code; the profile returns the
  familiarity as it is and the confidence and the engagement clamped to [0,1].
\<close>

theorem personality_rule_chain:
  "personality (calculateProfile m) = spec_personality m
   \<and> familiarity (calculateProfile m) = spec_familiarity m
   \<and> BehaviorProfile.confidence (calculateProfile m) = clamp01 (spec_confidence m)
   \<and> engagement (calculateProfile m) = clamp01 (spec_engagement m)"
  unfolding calculateProfile_def spec_personality_def spec_familiarity_def spec_confidence_def
    spec_engagement_def clamp01_def Let_def BehaviorProfile.select_convs
    spec_clickSpeedConfidence_eq spec_directApproachRatio_eq averageClickLatency_eq
    num_mul_commute [of "double 0.6"] num_mul_commute [of "double 0.4"]
    num_mul_commute [of "double 0.1"]
  by (intro conjI refl)

text \<open>
  Two accumulators at a threshold, where rounding decides. With an average hover duration
  of 1200 and 2 retreats the engagement is 0.8 - 0.2 in binary64, which is
  0.6000000000000001 and above 0.6: the personality is curious. With one click after
  200ms, 10 hovers and 4 direct approaches the confidence is 0.54 + 0.16 in binary64,
  which is 0.7000000000000001 and above 0.7: the personality is assertive.
\<close>

lemma threshold_engagement:
  "engagement (calculateProfile
      (getDefaultMetrics\<lparr>averageHoverDuration := Finite 1200, approachRetreatCount := 2\<rparr>))
     = Finite (1351079888211149 / 2251799813685248)
   \<and> num_gt (Finite (1351079888211149 / 2251799813685248)) (double 0.6)
   \<and> personality (calculateProfile
      (getDefaultMetrics\<lparr>averageHoverDuration := Finite 1200, approachRetreatCount := 2\<rparr>))
     = Personality.Curious"
  by (simp add: calculateProfile_def getDefaultMetrics_def avgClickSpeed_def
      clickSpeedConfidence_def directApproachRatio_def double_values Let_def)

lemma threshold_confidence:
  "BehaviorProfile.confidence (calculateProfile
      (getDefaultMetrics\<lparr>clickCount := 1, clickSpeed := [200], hoverCount := 10,
                         directApproaches := 4\<rparr>))
     = Finite (6305039478318695 / 9007199254740992)
   \<and> num_gt (Finite (6305039478318695 / 9007199254740992)) (double 0.7)
   \<and> personality (calculateProfile
      (getDefaultMetrics\<lparr>clickCount := 1, clickSpeed := [200], hoverCount := 10,
                         directApproaches := 4\<rparr>))
     = Assertive"
  by (simp add: calculateProfile_def getDefaultMetrics_def avgClickSpeed_def reduce_sum_def
      clickSpeedConfidence_def directApproachRatio_def double_values Let_def)

section \<open>Behavior Profile: the fresh accumulator\<close>

text \<open>
  C10. With an empty click-speed history the average click latency is 1000 and
  \<open>clickSpeedConfidence\<close> is 0.5; if moreover there was no hover (so the direct-approach
  ratio is 0), as in the fresh accumulator, the confidence of the profile is exactly the
  number 0.3 (the binary64 number that the literal \<open>0.3\<close> denotes).
\<close>

theorem fresh_accumulator_confidence:
  assumes "clickSpeed m = []" and "hoverCount m = 0"
  shows "avgClickSpeed m = Finite 1000 \<and> clickSpeedConfidence m = Finite 0.5
         \<and> BehaviorProfile.confidence (calculateProfile m) = double 0.3"
proof -
  from assms(1) have a: "avgClickSpeed m = Finite 1000" by (simp add: avgClickSpeed_def)
  then have c: "clickSpeedConfidence m = Finite 0.5"
    by (simp add: clickSpeedConfidence_def double_values)
  from assms(2) have r: "directApproachRatio m = Finite 0" by (simp add: directApproachRatio_def)
  have "BehaviorProfile.confidence (calculateProfile m) = double 0.3"
    unfolding calculateProfile_def Let_def BehaviorProfile.select_convs c r double_0_3
    by (simp add: double_values)
  with a c show ?thesis by blast
qed

theorem fresh_accumulator_confidence_witness:
  "clickSpeed getDefaultMetrics = [] \<and> hoverCount getDefaultMetrics = 0
   \<and> clickCount getDefaultMetrics = 0 \<and> directApproaches getDefaultMetrics = 0
   \<and> avgClickSpeed getDefaultMetrics = Finite 1000
   \<and> clickSpeedConfidence getDefaultMetrics = Finite 0.5
   \<and> BehaviorProfile.confidence (calculateProfile getDefaultMetrics) = double 0.3
   \<and> double 0.3 = Finite (5404319552844595 / 18014398509481984)"
  using fresh_accumulator_confidence [of getDefaultMetrics] double_0_3
  by (simp add: getDefaultMetrics_def)

section \<open>Scores in the unit interval\<close>

lemma calculateIntent_scores:
  "in_unit (IntentProfile.confidence (calculateIntent now s))
   \<and> in_unit (attention (calculateIntent now s))
   \<and> in_unit (urgency (calculateIntent now s))"
  by (auto simp: calculateIntent_def Let_def in_unit_def min_def)

lemma onLeave_inv: "memory_inv h \<Longrightarrow> memory_inv (onLeave tr t1 t2 t3 h)"
  by (auto simp: memory_inv_def onLeave_def setMemory_def setCurrentSession_def Let_def
      in_unit_def split: option.splits)

lemma handle_memory_inv: "memory_inv h \<Longrightarrow> memory_inv (handle_memory e h)"
  by (cases e)
     (simp_all add: onLeave_inv, simp_all add: memory_inv_def onEnter_def onMouseMove_memory_def
        onScroll_memory_def setCurrentSession_def resetMemory_def setMemory_def
        getDefaultMemory_def in_unit_def)

lemma run_memory_inv: "memory_inv h \<Longrightarrow> memory_inv (run_memory es h)"
  by (induction es arbitrary: h) (simp_all add: handle_memory_inv)

text \<open>
  What the clamps do guarantee. The confidence and the familiarity of the Behavior Profile
  lie in [0,1] for every accumulator, and the engagement does whenever the average hover
  duration is not \<open>NaN\<close>, which holds after every sequence of operations without a
  reset.
\<close>

lemma pow2_pos: "0 < pow2 k"
  by (simp add: pow2_def)

lemma round_half_even_nonneg: "0 \<le> y \<Longrightarrow> 0 \<le> round_half_even y"
  by (simp add: round_half_even_def Let_def)

lemma double_not_NaN: "double x \<noteq> NaN"
  by (simp add: double_def Let_def)

lemma double_nonneg: "0 \<le> x \<Longrightarrow> num_nonneg (double x)"
proof (cases "x = 0")
  case True
  then show ?thesis by (simp add: double_def num_nonneg_def)
next
  case False
  assume "0 \<le> x"
  with False have pos: "0 < x" by simp
  have "0 \<le> x / pow2 (binade x - 52)" using pos pow2_pos [of "binade x - 52"] by simp
  then have "0 \<le> round_half_even (x / pow2 (binade x - 52))" by (rule round_half_even_nonneg)
  then have "0 \<le> real_of_int (round_half_even (x / pow2 (binade x - 52))) * pow2 (binade x - 52)"
    using pow2_pos [of "binade x - 52"] by simp
  with pos False show ?thesis by (simp add: double_def Let_def num_nonneg_def)
qed

lemma num_nonneg_not_NaN: "num_nonneg x \<Longrightarrow> x \<noteq> NaN"
  by (auto simp: num_nonneg_def)

lemma num_add_finite_not_NaN: "a \<noteq> NaN \<Longrightarrow> num_add a (Finite b) \<noteq> NaN"
  by (cases a) (simp_all add: double_not_NaN)

lemma foldl_not_NaN:
  "a \<noteq> NaN \<Longrightarrow> foldl (\<lambda>a b. num_add a (Finite b)) a xs \<noteq> NaN"
  by (induction xs arbitrary: a) (simp_all add: num_add_finite_not_NaN)

lemma reduce_sum_not_NaN: "reduce_sum xs \<noteq> NaN"
  by (simp add: reduce_sum_def foldl_not_NaN)

lemma num_div_finite_not_NaN: "a \<noteq> NaN \<Longrightarrow> c \<noteq> 0 \<Longrightarrow> num_div a (Finite c) \<noteq> NaN"
  by (cases a) (simp_all add: double_not_NaN)

lemma num_sub_finite_not_NaN: "z \<noteq> NaN \<Longrightarrow> num_sub (Finite c) z \<noteq> NaN"
  by (cases z) (simp_all add: double_not_NaN)

lemma Math_max_zero_nonneg: "z \<noteq> NaN \<Longrightarrow> num_nonneg (Math_max (Finite 0) z)"
  by (cases z) (simp_all add: num_nonneg_def)

lemma num_mul_nonneg:
  assumes "num_nonneg a" and "0 < c"
  shows "num_nonneg (num_mul a (Finite c))"
proof (cases a)
  case (Finite x)
  with assms have "0 \<le> x * c" by (simp add: num_nonneg_def)
  then have "num_nonneg (double (x * c))" by (rule double_nonneg)
  with Finite show ?thesis by simp
next
  case PosInfinity
  with assms(2) show ?thesis by (simp add: signed_infinity_def num_nonneg_def)
next
  case NegInfinity
  with assms(1) show ?thesis by (simp add: num_nonneg_def)
next
  case NaN
  with assms(1) show ?thesis by (simp add: num_nonneg_def)
qed

lemma num_add_nonneg:
  assumes "num_nonneg a" and "num_nonneg b"
  shows "num_nonneg (num_add a b)"
proof (cases a)
  case fa: (Finite x)
  show ?thesis
  proof (cases b)
    case (Finite y)
    with fa assms have "0 \<le> x + y" by (simp add: num_nonneg_def)
    then have "num_nonneg (double (x + y))" by (rule double_nonneg)
    with fa Finite show ?thesis by simp
  next
    case PosInfinity
    with fa show ?thesis by (simp add: num_nonneg_def)
  next
    case NegInfinity
    with assms(2) show ?thesis by (simp add: num_nonneg_def)
  next
    case NaN
    with assms(2) show ?thesis by (simp add: num_nonneg_def)
  qed
next
  case PosInfinity
  with assms(2) show ?thesis by (cases b) (simp_all add: num_nonneg_def)
next
  case NegInfinity
  with assms(1) show ?thesis by (simp add: num_nonneg_def)
next
  case NaN
  with assms(1) show ?thesis by (simp add: num_nonneg_def)
qed

lemma num_div_nonneg:
  "0 \<le> x \<Longrightarrow> 0 < c \<Longrightarrow> num_nonneg (num_div (Finite x) (Finite c))"
  using double_nonneg [of "x / c"] by simp

lemma min_one_in_unit: "num_nonneg z \<Longrightarrow> number_in_unit (Math_min (Finite 1) z)"
  by (cases z) (simp_all add: num_nonneg_def number_in_unit_def)

lemma clamp_in_unit:
  "z \<noteq> NaN \<Longrightarrow> number_in_unit (Math_min (Finite 1) (Math_max (Finite 0) z))"
  by (cases z) (simp_all add: number_in_unit_def)

lemma avgClickSpeed_not_NaN: "avgClickSpeed m \<noteq> NaN"
  by (simp add: avgClickSpeed_def num_div_finite_not_NaN reduce_sum_not_NaN)

lemma clickSpeedConfidence_nonneg: "num_nonneg (clickSpeedConfidence m)"
  unfolding clickSpeedConfidence_def
  by (intro Math_max_zero_nonneg num_sub_finite_not_NaN num_div_finite_not_NaN
      avgClickSpeed_not_NaN) simp

lemma directApproachRatio_nonneg: "num_nonneg (directApproachRatio m)"
proof (cases "0 < hoverCount m")
  case True
  then have "num_nonneg (num_div (Finite (real (directApproaches m)))
                                 (Finite (real (hoverCount m))))"
    by (intro num_div_nonneg) simp_all
  with True show ?thesis by (simp only: directApproachRatio_def if_True)
next
  case False
  then show ?thesis by (simp add: directApproachRatio_def num_nonneg_def)
qed

lemma familiarity_in_unit: "number_in_unit (familiarity (calculateProfile m))"
proof -
  have "num_nonneg (num_div (Finite (real (clickCount m + hoverCount m))) (Finite 50))"
    by (intro num_div_nonneg) simp_all
  then have "number_in_unit (Math_min (Finite 1)
               (num_div (Finite (real (clickCount m + hoverCount m))) (Finite 50)))"
    by (rule min_one_in_unit)
  then show ?thesis
    by (simp only: calculateProfile_def Let_def BehaviorProfile.select_convs)
qed

lemma confidence_in_unit: "number_in_unit (BehaviorProfile.confidence (calculateProfile m))"
proof -
  have "num_nonneg (num_add (num_mul (clickSpeedConfidence m) (double 0.6))
                            (num_mul (directApproachRatio m) (double 0.4)))"
    unfolding double_0_6 double_0_4
    by (intro num_add_nonneg num_mul_nonneg clickSpeedConfidence_nonneg
        directApproachRatio_nonneg) simp_all
  then have "number_in_unit (Math_min (Finite 1) (Math_max (Finite 0)
                 (num_add (num_mul (clickSpeedConfidence m) (double 0.6))
                          (num_mul (directApproachRatio m) (double 0.4)))))"
    by (intro clamp_in_unit num_nonneg_not_NaN)
  then show ?thesis
    by (simp only: calculateProfile_def Let_def BehaviorProfile.select_convs)
qed

lemma retreatPenalty_finite:
  "\<exists>r. Math_min (double 0.5) (num_mul (Finite (real n)) (double 0.1)) = Finite r"
proof -
  have "num_nonneg (num_mul (Finite (real n)) (double 0.1))"
    unfolding double_0_1 by (intro num_mul_nonneg) (simp_all add: num_nonneg_def)
  then show ?thesis
  proof (cases "num_mul (Finite (real n)) (double 0.1)")
    case (Finite x)
    then show ?thesis by (simp add: double_values)
  next
    case PosInfinity
    then have "Math_min (double 0.5) (num_mul (Finite (real n)) (double 0.1))
                 = Finite (1 / 2)"
      by (simp add: double_values)
    then show ?thesis by (rule exI)
  qed (simp_all add: num_nonneg_def)
qed

lemma engagement_in_unit:
  assumes "averageHoverDuration m \<noteq> NaN"
  shows "number_in_unit (engagement (calculateProfile m))"
proof -
  obtain r where r: "Math_min (double 0.5)
      (num_mul (Finite (real (approachRetreatCount m))) (double 0.1)) = Finite r"
    using retreatPenalty_finite by blast
  from assms have "num_div (averageHoverDuration m) (Finite 1500) \<noteq> NaN"
    by (intro num_div_finite_not_NaN) simp_all
  then have "num_sub (Math_min (Finite 1) (num_div (averageHoverDuration m) (Finite 1500)))
               (Finite r) \<noteq> NaN"
    by (cases "num_div (averageHoverDuration m) (Finite 1500)") (simp_all add: double_not_NaN)
  then have "num_nonneg (Math_max (Finite 0)
      (num_sub (Math_min (Finite 1) (num_div (averageHoverDuration m) (Finite 1500)))
               (Finite r)))"
    by (rule Math_max_zero_nonneg)
  then have "Math_max (Finite 0)
      (num_sub (Math_min (Finite 1) (num_div (averageHoverDuration m) (Finite 1500)))
               (Finite r)) \<noteq> NaN"
    by (rule num_nonneg_not_NaN)
  then have "number_in_unit (Math_min (Finite 1) (Math_max (Finite 0) (Math_max (Finite 0)
      (num_sub (Math_min (Finite 1) (num_div (averageHoverDuration m) (Finite 1500)))
               (Finite r)))))"
    by (rule clamp_in_unit)
  then show ?thesis
    by (simp only: calculateProfile_def Let_def BehaviorProfile.select_convs r)
qed

lemma handle_behavior_hover_inv:
  "hover_inv h \<Longrightarrow> e \<noteq> ResetProfile \<Longrightarrow> hover_inv (handle_behavior e h)"
  by (cases e)
     (auto simp: hover_inv_def onHoverStart_def onHoverEnd_def onMouseMove_def onClick_def
        onApproachRetreat_def setMetrics_def Let_def double_not_NaN
        split: option.splits prod.splits)

lemma run_behavior_hover_inv:
  "hover_inv h \<Longrightarrow> ResetProfile \<notin> set es \<Longrightarrow> hover_inv (run_behavior es h)"
proof (induction es arbitrary: h)
  case Nil
  then show ?case by simp
next
  case (Cons e es)
  from Cons.prems(2) have ne: "e \<noteq> ResetProfile" and rest: "ResetProfile \<notin> set es"
    by auto
  from Cons.IH [OF handle_behavior_hover_inv [OF Cons.prems(1) ne] rest]
  show ?case by simp
qed

lemma scores_in_unit_without_reset:
  assumes "ResetProfile \<notin> set es" and "averageHoverDuration m0 \<noteq> NaN"
  shows "number_in_unit (BehaviorProfile.confidence
           (calculateProfile (metrics (run_behavior es (initialBehaviorHook m0)))))
         \<and> number_in_unit (engagement
           (calculateProfile (metrics (run_behavior es (initialBehaviorHook m0)))))
         \<and> number_in_unit (familiarity
           (calculateProfile (metrics (run_behavior es (initialBehaviorHook m0)))))"
proof -
  from assms(2) have "hover_inv (initialBehaviorHook m0)"
    by (simp add: hover_inv_def initialBehaviorHook_def)
  from run_behavior_hover_inv [OF this assms(1)]
  have "averageHoverDuration (metrics (run_behavior es (initialBehaviorHook m0))) \<noteq> NaN"
    by (simp add: hover_inv_def)
  then show ?thesis
    by (intro conjI confidence_in_unit engagement_in_unit familiarity_in_unit)
qed

text \<open>
  C2: the code on an input where a score is not in [0,1]. \<open>resetProfile\<close> sets the hover
  counter to 0 and leaves the hover session open. A hover start, a reset and a hover end
  in the same millisecond: \<open>onHoverEnd\<close> divides the total duration 0 by the hover count
  0, the average hover duration is \<open>NaN\<close>, and the clamps \<open>Math.min(1, Math.max(0, ...))\<close>
  return \<open>NaN\<close> for \<open>NaN\<close>: the engagement of the profile is \<open>NaN\<close>.
\<close>

theorem engagement_nan_after_reset:
  "averageHoverDuration (metrics (run_behavior [HoverStart 0 0 0 0, ResetProfile, HoverEnd 0]
      (initialBehaviorHook getDefaultMetrics))) = NaN
   \<and> engagement (calculateProfile (metrics
        (run_behavior [HoverStart 0 0 0 0, ResetProfile, HoverEnd 0]
           (initialBehaviorHook getDefaultMetrics)))) = NaN"
proof -
  have a: "averageHoverDuration (metrics (run_behavior [HoverStart 0 0 0 0, ResetProfile, HoverEnd 0]
      (initialBehaviorHook getDefaultMetrics))) = NaN"
    by (simp add: initialBehaviorHook_def getDefaultMetrics_def onHoverStart_def resetProfile_def
        onHoverEnd_def setMetrics_def signed_infinity_def Let_def)
  have "engagement (calculateProfile m) = NaN" if "averageHoverDuration m = NaN" for m
    using that by (simp add: calculateProfile_def Let_def)
  from this [OF a] a show ?thesis by blast
qed

section \<open>Intent Detection: the searching scenario\<close>

lemma foldl_velocity:
  "foldl (\<lambda>a b. a + ScrollPattern.velocity b) a ps
     = a + sum_list (map ScrollPattern.velocity ps)"
  by (induction ps arbitrary: a) simp_all

lemma slice_last_all: "length xs \<le> n \<Longrightarrow> slice_last n xs = xs"
  by (simp add: slice_last_def)

lemma sum_list_gt:
  "xs \<noteq> [] \<Longrightarrow> (\<And>x. x \<in> set xs \<Longrightarrow> lo < f x)
     \<Longrightarrow> lo * real (length xs) < sum_list (map f xs)"
proof (induction xs)
  case Nil
  then show ?case by simp
next
  case (Cons x xs)
  show ?case
  proof (cases "xs = []")
    case True
    with Cons.prems show ?thesis by simp
  next
    case False
    from Cons.IH [OF False] Cons.prems(2)
    have "lo * real (length xs) < sum_list (map f xs)" by simp
    moreover have "lo < f x" using Cons.prems(2) by simp
    ultimately show ?thesis by (simp add: algebra_simps)
  qed
qed

lemma five_scrolls_signals:
  "map ScrollPattern.velocity
     (scrollPatterns (signals (run_intent five_scrolls (initialIntentHook 1000 1000 1000 1000))))
     = [400, 400, 400, 400, 400]
   \<and> pauseCount (signals (run_intent five_scrolls (initialIntentHook 1000 1000 1000 1000))) = 0
   \<and> directionChanges
        (signals (run_intent five_scrolls (initialIntentHook 1000 1000 1000 1000))) = 0"
  by (simp add: five_scrolls_def initialIntentHook_def initialSignals_def onScroll_intent_def
      setSignals_def slice_last_def js_div_def Let_def)

text \<open>
  C9. An Intent Detection accumulator that holds 5 scroll patterns, each with a velocity
  within 100 of 400 px/s, and no pause and no direction change, has the recent average
  velocity (the sum of the 5 velocities over 5) above 300, and its profile, computed at
  any time, has currentIntent searching, urgency 0.8, attention 0.4 and confidence
  min(0.9, recent average velocity / 500). The witness feeds a fresh accumulator five
  scroll events of velocity 400.
\<close>

theorem searching_scenario:
  assumes "pauseCount s = 0" and "directionChanges s = 0"
    and "length (scrollPatterns s) = 5"
    and "\<forall>p \<in> set (scrollPatterns s). \<bar>ScrollPattern.velocity p - 400\<bar> < 100"
  shows "recentVelocity s = sum_list (map ScrollPattern.velocity (scrollPatterns s)) / 5
         \<and> currentIntent (calculateIntent now s) = Searching
         \<and> urgency (calculateIntent now s) = 0.8
         \<and> attention (calculateIntent now s) = 0.4
         \<and> IntentProfile.confidence (calculateIntent now s) = min 0.9 (recentVelocity s / 500)"
proof -
  have ne: "scrollPatterns s \<noteq> []" using assms(3) by auto
  have "300 * real (length (scrollPatterns s))
          < sum_list (map ScrollPattern.velocity (scrollPatterns s))"
    using assms(4) by (intro sum_list_gt [OF ne]) auto
  then have big: "1500 < sum_list (map ScrollPattern.velocity (scrollPatterns s))"
    using assms(3) by simp
  have rv: "recentVelocity s = sum_list (map ScrollPattern.velocity (scrollPatterns s)) / 5"
    using assms(3) by (simp add: recentVelocity_def or_zero_def slice_last_all foldl_velocity)
  with big have "300 < recentVelocity s" by simp
  then show ?thesis
    using assms(1,2) rv by (simp add: calculateIntent_def Let_def)
qed

theorem searching_scenario_witness:
  "(let s = signals (run_intent five_scrolls (initialIntentHook 1000 1000 1000 1000)) in
    pauseCount s = 0 \<and> directionChanges s = 0 \<and> length (scrollPatterns s) = 5
    \<and> map ScrollPattern.velocity (scrollPatterns s) = [400, 400, 400, 400, 400]
    \<and> recentVelocity s = 400
    \<and> currentIntent (calculateIntent 1500 s) = Searching
    \<and> urgency (calculateIntent 1500 s) = 0.8
    \<and> attention (calculateIntent 1500 s) = 0.4
    \<and> IntentProfile.confidence (calculateIntent 1500 s) = 0.8)"
proof -
  define s where "s = signals (run_intent five_scrolls (initialIntentHook 1000 1000 1000 1000))"
  have v: "map ScrollPattern.velocity (scrollPatterns s) = [400, 400, 400, 400, 400]"
    and p: "pauseCount s = 0" and d: "directionChanges s = 0"
    using five_scrolls_signals by (simp_all add: s_def)
  from v have l: "length (scrollPatterns s) = 5"
    using length_map [of ScrollPattern.velocity "scrollPatterns s"] by simp
  have a: "\<forall>p \<in> set (scrollPatterns s). \<bar>ScrollPattern.velocity p - 400\<bar> < 100"
  proof
    fix q assume "q \<in> set (scrollPatterns s)"
    then have "ScrollPattern.velocity q \<in> set (map ScrollPattern.velocity (scrollPatterns s))"
      by simp
    then show "\<bar>ScrollPattern.velocity q - 400\<bar> < 100" unfolding v by simp
  qed
  from searching_scenario [OF p d l a, of 1500] v p d l
  show ?thesis unfolding s_def [symmetric] Let_def by simp
qed

section \<open>Determinism of the profile calculators\<close>

lemma avgClickSpeed_ignores_time:
  "avgClickSpeed (m\<lparr>lastInteractionTime := t\<rparr>) = avgClickSpeed m"
  by (simp add: avgClickSpeed_def)

lemma clickSpeedConfidence_ignores_time:
  "clickSpeedConfidence (m\<lparr>lastInteractionTime := t\<rparr>) = clickSpeedConfidence m"
  by (simp add: clickSpeedConfidence_def avgClickSpeed_ignores_time)

lemma directApproachRatio_ignores_time:
  "directApproachRatio (m\<lparr>lastInteractionTime := t\<rparr>) = directApproachRatio m"
  by (simp add: directApproachRatio_def)

lemma calculateProfile_ignores_time:
  "calculateProfile (m\<lparr>lastInteractionTime := t\<rparr>) = calculateProfile m"
  unfolding calculateProfile_def avgClickSpeed_ignores_time
      clickSpeedConfidence_ignores_time directApproachRatio_ignores_time
  by (cases m) (simp only: BehaviorMetrics.simps)

lemma currentMood_ignores_time: "currentMood (im\<lparr>lastVisit := t\<rparr>) = currentMood im"
  by (simp add: currentMood_def)

lemma calculateIntent_idle:
  assumes "(now1 - lastActivity s > 5000) = (now2 - lastActivity s > 5000)"
  shows "calculateIntent now1 s = calculateIntent now2 s"
proof (cases "now1 - lastActivity s > 5000")
  case True
  with assms have "now2 - lastActivity s > 5000" by simp
  with True show ?thesis by (simp add: calculateIntent_def Let_def)
next
  case False
  with assms have "\<not> now2 - lastActivity s > 5000" by simp
  with False show ?thesis by (simp add: calculateIntent_def Let_def)
qed

lemma isReturningUser_away:
  assumes "(now1 - lastVisit im > 60000) = (now2 - lastVisit im > 60000)"
  shows "isReturningUser now1 im = isReturningUser now2 im"
proof (cases "now1 - lastVisit im > 60000")
  case True
  with assms have "now2 - lastVisit im > 60000" by simp
  with True show ?thesis by (simp add: isReturningUser_def timeSinceLastVisit_def)
next
  case False
  with assms have "\<not> now2 - lastVisit im > 60000" by simp
  with False show ?thesis by (simp add: isReturningUser_def timeSinceLastVisit_def)
qed

lemma timeSinceLastVisit_eq_iff:
  "(timeSinceLastVisit now1 im = timeSinceLastVisit now2 im) = (lastVisit im = 0 \<or> now1 = now2)"
  by (simp add: timeSinceLastVisit_def)

text \<open>
  C3, as the claim states it, fails where a derivation reads the clock. The same Intent
  Detection accumulator (fresh, last activity at time 0) gives the intent browsing when
  \<open>calculateIntent\<close> is evaluated at time 1000 and leaving when it is evaluated at time
  6000. The same Interaction Memory accumulator (one visit, at time 1000) gives the
  derived fields \<open>timeSinceLastVisit\<close> 1000 and \<open>isReturningUser\<close> false at time 2000, and
  69000 and true at time 70000.
\<close>

theorem clock_dependence_counterexample:
  "currentIntent (calculateIntent 1000 (initialSignals 0)) = Browsing
   \<and> currentIntent (calculateIntent 6000 (initialSignals 0)) = Leaving
   \<and> timeSinceLastVisit 2000 (getDefaultMemory\<lparr>visitCount := 1, lastVisit := 1000\<rparr>) = Some 1000
   \<and> timeSinceLastVisit 70000 (getDefaultMemory\<lparr>visitCount := 1, lastVisit := 1000\<rparr>)
       = Some 69000
   \<and> \<not> isReturningUser 2000 (getDefaultMemory\<lparr>visitCount := 1, lastVisit := 1000\<rparr>)
   \<and> isReturningUser 70000 (getDefaultMemory\<lparr>visitCount := 1, lastVisit := 1000\<rparr>)"
  by (simp add: calculateIntent_def initialSignals_def recentVelocity_def avgFocusDuration_def
      or_zero_def slice_last_def isReturningUser_def timeSinceLastVisit_def getDefaultMemory_def
      Let_def)

text \<open>
  C3, amended. For a fixed accumulator, two evaluations at the clock readings \<open>now1\<close> and
  \<open>now2\<close> return identical results in these cases. \<open>calculateIntent\<close> returns identical
  profiles when the two readings agree on the idle test (time since \<open>lastActivity\<close> above
  5000ms). Of the derived fields of the Interaction Memory, \<open>isReturningUser\<close> is
  identical when the two readings agree on the away test (time since \<open>lastVisit\<close> above
  60000ms), and \<open>timeSinceLastVisit\<close> is identical exactly when there was no visit yet or
  the readings are equal. \<open>calculateProfile\<close> and \<open>currentMood\<close> have the accumulator as
  their only argument (the source reads no clock and no random source in them) and ignore
  even the timestamps stored in it, \<open>lastInteractionTime\<close> and \<open>lastVisit\<close>.
\<close>

theorem calculators_deterministic:
  assumes "(now1 - lastActivity s > 5000) = (now2 - lastActivity s > 5000)"
    and "(now1 - lastVisit im > 60000) = (now2 - lastVisit im > 60000)"
  shows "calculateIntent now1 s = calculateIntent now2 s
         \<and> isReturningUser now1 im = isReturningUser now2 im
         \<and> (timeSinceLastVisit now1 im = timeSinceLastVisit now2 im)
             = (lastVisit im = 0 \<or> now1 = now2)
         \<and> calculateProfile (m\<lparr>lastInteractionTime := t\<rparr>) = calculateProfile m
         \<and> currentMood (im\<lparr>lastVisit := t'\<rparr>) = currentMood im"
  by (intro conjI calculateIntent_idle [OF assms(1)] isReturningUser_away [OF assms(2)]
      timeSinceLastVisit_eq_iff calculateProfile_ignores_time currentMood_ignores_time)

theorem calculators_deterministic_witness:
  "((4000 - lastActivity (initialSignals 0) > 5000)
      = (5000 - lastActivity (initialSignals 0) > 5000))
   \<and> ((4000 - lastVisit one_session_memory > 60000)
      = (5000 - lastVisit one_session_memory > 60000))
   \<and> calculateIntent 4000 (initialSignals 0) = calculateIntent 5000 (initialSignals 0)
   \<and> isReturningUser 4000 one_session_memory = isReturningUser 5000 one_session_memory
   \<and> (timeSinceLastVisit 4000 one_session_memory = timeSinceLastVisit 5000 one_session_memory)
       = (lastVisit one_session_memory = 0 \<or> (4000::real) = 5000)
   \<and> calculateProfile (getDefaultMetrics\<lparr>lastInteractionTime := 7\<rparr>)
       = calculateProfile getDefaultMetrics
   \<and> currentMood (one_session_memory\<lparr>lastVisit := 7\<rparr>) = currentMood one_session_memory"
proof -
  have h: "(4000 - lastActivity (initialSignals 0) > 5000)
             = (5000 - lastActivity (initialSignals 0) > 5000)"
    by (simp add: initialSignals_def)
  have a: "(4000 - lastVisit one_session_memory > 60000)
             = (5000 - lastVisit one_session_memory > 60000)"
    by (simp add: one_session_memory_def)
  from calculators_deterministic
         [OF h a, where m = getDefaultMetrics and t = 7 and t' = 7]
  show ?thesis by (intro conjI h a) blast+
qed

section \<open>Interaction Memory: the study session\<close>

lemma study_session_state:
  "run_memory study_session (initialMemoryHook getDefaultMemory)
     = \<lparr>memory = getDefaultMemory, memoryVersion = 0,
        currentSession = \<lparr>startTime = 1000, Session.focusPoints = [(5, 5), (5, 5)],
                          isActive = True, Session.scrollDepth = 0.6\<rparr>\<rparr>"
  by (simp add: study_session_def initialMemoryHook_def onEnter_def onMouseMove_memory_def
      onScroll_memory_def setCurrentSession_def slice_last_def)

text \<open>
  C5, as the claim states it, fails: a fresh accumulator, one session entered at time 1000
  with no pointer movement and scroll depth 0.6, left at time 3500 (after 2500ms), gets a
  layer whose emotionalSignature is curious, not thorough.
\<close>

theorem study_session_counterexample:
  "map emotionalSignature
     (layers (memory (run_memory (study_session @ [Leave 1200 3500 3500 3500])
                        (initialMemoryHook getDefaultMemory))))
     = [EmotionalSignature.Curious]
   \<and> map emotionalSignature
     (layers (memory (run_memory (study_session @ [Leave 1200 3500 3500 3500])
                        (initialMemoryHook getDefaultMemory))))
     \<noteq> [Thorough]"
  by (simp add: study_session_def initialMemoryHook_def onEnter_def onMouseMove_memory_def
      onScroll_memory_def setCurrentSession_def slice_last_def onLeave_def setMemory_def
      getDefaultMemory_def isReturningUser_def timeSinceLastVisit_def
      calculateAverageMovement_def Let_def)

text \<open>
  C5, amended. For a fresh Interaction Memory accumulator, closing an open session after
  2500ms, with maximum scroll depth 0.6 and an average pointer movement of at most 30,
  appends exactly one layer, with interactionType study and emotionalSignature curious
  (thorough needs a duration above 3000ms), and increases revealProgress by exactly 0.15.
\<close>

theorem study_session_layer:
  assumes "memory h = getDefaultMemory"
    and "isActive (currentSession h)"
    and "t1 - startTime (currentSession h) = 2500"
    and "Session.scrollDepth (currentSession h) = 0.6"
    and "calculateAverageMovement (Session.focusPoints (currentSession h)) \<le> 30"
  shows "\<exists>layer. layers (memory (onLeave tr t1 t2 t3 h)) = [layer]
           \<and> interactionType layer = Study
           \<and> emotionalSignature layer = EmotionalSignature.Curious
           \<and> revealProgress (memory (onLeave tr t1 t2 t3 h)) = revealProgress (memory h) + 0.15"
  using assms
  by (simp add: onLeave_def setMemory_def setCurrentSession_def getDefaultMemory_def
      isReturningUser_def timeSinceLastVisit_def slice_last_def Let_def)

theorem study_session_layer_witness:
  "(let h = run_memory study_session (initialMemoryHook getDefaultMemory) in
    memory h = getDefaultMemory \<and> isActive (currentSession h)
    \<and> 3500 - startTime (currentSession h) = 2500
    \<and> Session.scrollDepth (currentSession h) = 0.6
    \<and> calculateAverageMovement (Session.focusPoints (currentSession h)) \<le> 30
    \<and> (\<exists>layer. layers (memory (onLeave 1200 3500 3500 3500 h)) = [layer]
           \<and> interactionType layer = Study
           \<and> emotionalSignature layer = EmotionalSignature.Curious
           \<and> revealProgress (memory (onLeave 1200 3500 3500 3500 h))
               = revealProgress (memory h) + 0.15))"
proof -
  define h where "h = run_memory study_session (initialMemoryHook getDefaultMemory)"
  have a: "memory h = getDefaultMemory" and b: "isActive (currentSession h)"
    and c: "3500 - startTime (currentSession h) = 2500"
    and d: "Session.scrollDepth (currentSession h) = 0.6"
    and e: "calculateAverageMovement (Session.focusPoints (currentSession h)) \<le> 30"
    unfolding h_def study_session_state
    by (simp_all add: calculateAverageMovement_def)
  from study_session_layer [OF a b c d e, of 1200 3500 3500] a b c d e
  show ?thesis unfolding h_def [symmetric] Let_def by blast
qed

section \<open>Bounded histories\<close>

lemma length_slice_last: "length (slice_last n xs) = min (length xs) n"
  by (simp add: slice_last_def)

lemma onMouseMove_hovering:
  assumes "isHovering h" and "lastMousePosition h \<noteq> None"
  shows "isHovering (onMouseMove x y r h) \<and> lastMousePosition (onMouseMove x y r h) \<noteq> None
         \<and> length (hoverVelocity (metrics (onMouseMove x y r h)))
             = min (length (hoverVelocity (metrics h)) + 1) 21"
  using assms
  by (auto simp: onMouseMove_def setMetrics_def Let_def length_slice_last
      split: option.splits prod.splits)

lemma moves_length:
  "isHovering h \<Longrightarrow> lastMousePosition h \<noteq> None
     \<Longrightarrow> length (hoverVelocity (metrics h)) \<le> 21 \<Longrightarrow>
     length (hoverVelocity (metrics (run_behavior (replicate n (MouseMove x y r)) h)))
       = min (length (hoverVelocity (metrics h)) + n) 21"
proof (induction n arbitrary: h)
  case 0
  then show ?case by simp
next
  case (Suc n)
  note step = onMouseMove_hovering [OF Suc.prems(1,2), of x y r]
  then have le: "length (hoverVelocity (metrics (onMouseMove x y r h))) \<le> 21" by simp
  from Suc.IH [OF _ _ le] step
  have "length (hoverVelocity (metrics
          (run_behavior (replicate n (MouseMove x y r)) (onMouseMove x y r h))))
           = min (length (hoverVelocity (metrics (onMouseMove x y r h))) + n) 21"
    by blast
  with step show ?case by simp
qed

lemma onScroll_intent_length:
  "length (scrollPatterns (signals (onScroll_intent now y c h)))
     = min (length (scrollPatterns (signals h)) + 1) 31"
  by (simp add: onScroll_intent_def setSignals_def Let_def length_slice_last)

lemma scrolls_length:
  "length (scrollPatterns (signals h)) \<le> 31 \<Longrightarrow>
   length (scrollPatterns (signals (run_intent (replicate n (Scroll now y c)) h)))
     = min (length (scrollPatterns (signals h)) + n) 31"
proof (induction n arbitrary: h)
  case 0
  then show ?case by simp
next
  case (Suc n)
  then show ?case by (simp add: Suc.IH onScroll_intent_length)
qed

lemma session_length:
  "length (layers (memory (onLeave tr t1 t2 t3 (onEnter t h))))
     = min (length (layers (memory h)) + 1) 51"
  by (simp add: onLeave_def onEnter_def setMemory_def setCurrentSession_def Let_def
      length_slice_last)

lemma sessions_length:
  "length (layers (memory h)) \<le> 51 \<Longrightarrow>
   length (layers (memory (run_memory (concat (replicate n [Enter t, Leave tr t1 t2 t3])) h)))
     = min (length (layers (memory h)) + n) 51"
proof (induction n arbitrary: h)
  case 0
  then show ?case by simp
next
  case (Suc n)
  then show ?case by (simp add: Suc.IH session_length)
qed

text \<open>
  What the trimming does guarantee, for every sequence of events from the defaults: a
  history trimmed to its last N entries before the append never exceeds N + 1 entries.
\<close>

lemma handle_behavior_bounded:
  "length (hoverVelocity (metrics h)) \<le> 21 \<and> length (clickSpeed (metrics h)) \<le> 11
     \<Longrightarrow> length (hoverVelocity (metrics (handle_behavior e h))) \<le> 21
         \<and> length (clickSpeed (metrics (handle_behavior e h))) \<le> 11"
  by (cases e)
     (auto simp: onHoverStart_def onHoverEnd_def onMouseMove_def onClick_def
        onApproachRetreat_def resetProfile_def getDefaultMetrics_def setMetrics_def Let_def
        length_slice_last split: option.splits prod.splits if_splits)

lemma run_behavior_bounded:
  "length (hoverVelocity (metrics h)) \<le> 21 \<and> length (clickSpeed (metrics h)) \<le> 11
     \<Longrightarrow> length (hoverVelocity (metrics (run_behavior es h))) \<le> 21
         \<and> length (clickSpeed (metrics (run_behavior es h))) \<le> 11"
proof (induction es arbitrary: h)
  case Nil
  then show ?case by simp
next
  case (Cons e es)
  from Cons.IH [OF handle_behavior_bounded [OF Cons.prems, of e]] show ?case by simp
qed

lemma handle_intent_bounded:
  "length (scrollPatterns (signals h)) \<le> 31 \<and> length (focusEvents (signals h)) \<le> 21
     \<Longrightarrow> length (scrollPatterns (signals (handle_intent e h))) \<le> 31
         \<and> length (focusEvents (signals (handle_intent e h))) \<le> 21"
  by (cases e)
     (auto simp: onScroll_intent_def pauseTimeout_def surfaceTick_def onFocusChange_def
        onMouseMove_intent_def resetSignals_def initialSignals_def setSignals_def Let_def
        length_slice_last)

lemma run_intent_bounded:
  "length (scrollPatterns (signals h)) \<le> 31 \<and> length (focusEvents (signals h)) \<le> 21
     \<Longrightarrow> length (scrollPatterns (signals (run_intent es h))) \<le> 31
         \<and> length (focusEvents (signals (run_intent es h))) \<le> 21"
proof (induction es arbitrary: h)
  case Nil
  then show ?case by simp
next
  case (Cons e es)
  from Cons.IH [OF handle_intent_bounded [OF Cons.prems, of e]] show ?case by simp
qed

lemma handle_memory_bounded:
  "length (layers (memory h)) \<le> 51
     \<Longrightarrow> length (layers (memory (handle_memory e h))) \<le> 51"
  by (cases e)
     (auto simp: onEnter_def onLeave_def onMouseMove_memory_def onScroll_memory_def
        resetMemory_def getDefaultMemory_def setMemory_def setCurrentSession_def Let_def
        length_slice_last)

lemma run_memory_bounded:
  "length (layers (memory h)) \<le> 51 \<Longrightarrow> length (layers (memory (run_memory es h))) \<le> 51"
proof (induction es arbitrary: h)
  case Nil
  then show ?case by simp
next
  case (Cons e es)
  from Cons.IH [OF handle_memory_bounded [OF Cons.prems, of e]] show ?case by simp
qed

lemma histories_bounded:
  "length (hoverVelocity (metrics (run_behavior bes (initialBehaviorHook getDefaultMetrics)))) \<le> 21
   \<and> length (clickSpeed (metrics (run_behavior bes (initialBehaviorHook getDefaultMetrics)))) \<le> 11
   \<and> length (scrollPatterns (signals (run_intent ies (initialIntentHook t0 t1 t2 t3)))) \<le> 31
   \<and> length (focusEvents (signals (run_intent ies (initialIntentHook t0 t1 t2 t3)))) \<le> 21
   \<and> length (layers (memory (run_memory mes (initialMemoryHook getDefaultMemory)))) \<le> 51"
proof -
  have b: "length (hoverVelocity (metrics (run_behavior bes (initialBehaviorHook getDefaultMetrics)))) \<le> 21
   \<and> length (clickSpeed (metrics (run_behavior bes (initialBehaviorHook getDefaultMetrics)))) \<le> 11"
    by (rule run_behavior_bounded) (simp add: initialBehaviorHook_def getDefaultMetrics_def)
  have i: "length (scrollPatterns (signals (run_intent ies (initialIntentHook t0 t1 t2 t3)))) \<le> 31
   \<and> length (focusEvents (signals (run_intent ies (initialIntentHook t0 t1 t2 t3)))) \<le> 21"
    by (rule run_intent_bounded) (simp add: initialIntentHook_def initialSignals_def)
  have m: "length (layers (memory (run_memory mes (initialMemoryHook getDefaultMemory)))) \<le> 51"
    by (rule run_memory_bounded) (simp add: initialMemoryHook_def getDefaultMemory_def)
  from b i m show ?thesis by blast
qed

text \<open>
  C1: the code on the claim's own example. Each history is cut to its last N entries
  before the new entry is appended, so it settles at N + 1 entries: after one hover start
  and 1000 pointer moves the hover-velocity history has 21 entries (not at most 20),
  after 1000 scroll events the scroll-pattern history has 31 (not at most 30), and after
  1000 sessions the layer history has 51 (not at most 50).
\<close>

theorem histories_exceed_capacity:
  "length (hoverVelocity (metrics
      (run_behavior
         (HoverStart 0 0 0 0
            # replicate 1000 (MouseMove 1 1 \<lparr>left = 0, top = 0, width = 100, height = 40\<rparr>))
         (initialBehaviorHook getDefaultMetrics)))) = 21
   \<and> length (scrollPatterns (signals
        (run_intent (replicate 1000 (Scroll 0 0 1)) (initialIntentHook 0 0 0 0)))) = 31
   \<and> length (layers (memory
        (run_memory (concat (replicate 1000 [Enter 0, Leave 0 0 0 0]))
           (initialMemoryHook getDefaultMemory)))) = 51"
proof -
  define h0 where "h0 = onHoverStart 0 0 0 0 (initialBehaviorHook getDefaultMetrics)"
  have "isHovering h0" and "lastMousePosition h0 \<noteq> None"
    and l0: "length (hoverVelocity (metrics h0)) = 0"
    by (simp_all add: h0_def onHoverStart_def setMetrics_def initialBehaviorHook_def
        getDefaultMetrics_def)
  from moves_length [OF this(1,2), of 1000 1 1 "\<lparr>left = 0, top = 0, width = 100, height = 40\<rparr>"]
  have a: "length (hoverVelocity (metrics
      (run_behavior
         (HoverStart 0 0 0 0
            # replicate 1000 (MouseMove 1 1 \<lparr>left = 0, top = 0, width = 100, height = 40\<rparr>))
         (initialBehaviorHook getDefaultMetrics)))) = 21"
    unfolding l0 by (simp add: h0_def)
  have b: "length (scrollPatterns (signals
        (run_intent (replicate 1000 (Scroll 0 0 1)) (initialIntentHook 0 0 0 0)))) = 31"
    by (simp add: scrolls_length initialIntentHook_def initialSignals_def)
  have c: "length (layers (memory
        (run_memory (concat (replicate 1000 [Enter 0, Leave 0 0 0 0]))
           (initialMemoryHook getDefaultMemory)))) = 51"
    by (simp add: sessions_length initialMemoryHook_def getDefaultMemory_def)
  from a b c show ?thesis by blast
qed

section \<open>Behavior Profile: clicks\<close>

lemma onClick_metrics:
  "metrics (onClick t1 t2 t3 h) =
     (metrics h)\<lparr>clickCount := clickCount (metrics h) + 1,
                 clickSpeed := slice_last 10 (clickSpeed (metrics h)) @ [t1 - hoverStartTime h],
                 doubleClickCount :=
                   (if clickSpeed (metrics h) \<noteq> [] \<and> t2 - lastInteractionTime (metrics h) < 400
                    then doubleClickCount (metrics h) + 1 else doubleClickCount (metrics h)),
                 hoverWithoutClick := hoverWithoutClick (metrics h) - 1,
                 lastInteractionTime := t3\<rparr>"
  by (simp add: onClick_def setMetrics_def Let_def)

text \<open>
  C8: the code on an input where the double-click counter is wrong. \<open>onClick\<close> compares
  the time with \<open>lastInteractionTime\<close>, which \<open>onHoverStart\<close> also sets. A hover start at
  time 0 with a click at 100, a hover end at 200, and a new hover start at 10000 with a
  click at 10100: two clicks, 10000ms apart, and the double-click counter is 1.
\<close>

theorem double_click_miscount:
  "clickCount (metrics (run_behavior
      [HoverStart 0 0 0 0, Click 100 100 100, HoverEnd 200,
       HoverStart 10000 0 0 10000, Click 10100 10100 10100]
      (initialBehaviorHook getDefaultMetrics))) = 2
   \<and> doubleClickCount (metrics (run_behavior
      [HoverStart 0 0 0 0, Click 100 100 100, HoverEnd 200,
       HoverStart 10000 0 0 10000, Click 10100 10100 10100]
      (initialBehaviorHook getDefaultMetrics))) = 1"
  by (simp add: initialBehaviorHook_def getDefaultMetrics_def onHoverStart_def onClick_def
      onHoverEnd_def setMetrics_def slice_last_def Let_def)

section \<open>Loading the persisted state\<close>

text \<open>
  C6, as the claim states it, fails: with the malformed text \<open>garbage\<close> stored under the
  key of the Behavior Profile, the initialiser does not return the defaults, as it does
  for an absent entry: the \<open>SyntaxError\<close> of \<open>JSON.parse\<close> propagates, whatever the rest
  of the parser would accept.
\<close>

theorem malformed_stored_counterexample:
  "loadMetrics True (\<lambda>text. Some getDefaultMetrics)
     [storageKey_behavior ''btn'' \<mapsto> ''garbage''] ''btn'' = Inl SyntaxError
   \<and> loadMetrics True (\<lambda>text. Some getDefaultMetrics) Map.empty ''btn'' = Inr getDefaultMetrics"
  by (simp add: loadMetrics_def JSON_parse_def json_whitespace_def json_value_start_def)

text \<open>
  C6, amended. When the stored value under the classifier's key is absent, the Behavior
  Profile and the Interaction Memory initialise the accumulator to the defaults. When it
  is a non-empty text that \<open>JSON.parse\<close> rejects, the error is not caught: the
  initialiser, and with it mounting the hook, fails with that error. The Intent Detection
  loads nothing: it starts from its defaults whatever the storage holds.
\<close>

theorem load_persisted_state:
  assumes "absent (storageKey_behavior componentId) = None"
    and "absent (storageKey_memory cardId) = None"
    and "present (storageKey_behavior componentId) = Some stored"
    and "present (storageKey_memory cardId) = Some stored'"
    and "stored \<noteq> []" and "stored' \<noteq> []"
    and "JSON_parse decode stored = Inl e" and "JSON_parse decode' stored' = Inl e'"
  shows "loadMetrics True decode absent componentId = Inr getDefaultMetrics
         \<and> loadMemory True decode' absent cardId = Inr getDefaultMemory
         \<and> loadMetrics True decode present componentId = Inl e
         \<and> loadMemory True decode' present cardId = Inl e'
         \<and> mount_behavior decode stringify componentId present = Inl e
         \<and> mount_memory decode' stringify' cardId present = Inl e'
         \<and> fst (mount_intent t0 t1 t2 t3 surfaceId present) = initialIntentHook t0 t1 t2 t3"
  using assms
  by (simp add: loadMetrics_def loadMemory_def mount_behavior_def mount_memory_def
      mount_intent_def)

theorem load_persisted_state_witness:
  "(let absent = Map.empty;
        present = [storageKey_behavior ''btn'' \<mapsto> ''garbage'',
                   storageKey_memory ''card'' \<mapsto> ''garbage''];
        decode = (\<lambda>text. Some getDefaultMetrics);
        decode' = (\<lambda>text. Some getDefaultMemory)
    in absent (storageKey_behavior ''btn'') = None
       \<and> absent (storageKey_memory ''card'') = None
       \<and> present (storageKey_behavior ''btn'') = Some ''garbage''
       \<and> present (storageKey_memory ''card'') = Some ''garbage''
       \<and> JSON_parse decode ''garbage'' = Inl SyntaxError
       \<and> JSON_parse decode' ''garbage'' = Inl SyntaxError
       \<and> loadMetrics True decode absent ''btn'' = Inr getDefaultMetrics
       \<and> loadMemory True decode' absent ''card'' = Inr getDefaultMemory
       \<and> loadMetrics True decode present ''btn'' = Inl SyntaxError
       \<and> loadMemory True decode' present ''card'' = Inl SyntaxError)"
proof -
  define present :: Storage where
    "present = [storageKey_behavior ''btn'' \<mapsto> ''garbage'',
                storageKey_memory ''card'' \<mapsto> ''garbage'']"
  have a: "(Map.empty :: Storage) (storageKey_behavior ''btn'') = None"
    and b: "(Map.empty :: Storage) (storageKey_memory ''card'') = None" by simp_all
  have c: "present (storageKey_behavior ''btn'') = Some ''garbage''"
    and d: "present (storageKey_memory ''card'') = Some ''garbage''"
    by (simp_all add: present_def storageKey_behavior_def storageKey_memory_def)
  have n: "''garbage'' \<noteq> []" by simp
  have p: "JSON_parse (\<lambda>text. Some getDefaultMetrics) ''garbage'' = Inl SyntaxError"
    and q: "JSON_parse (\<lambda>text. Some getDefaultMemory) ''garbage'' = Inl SyntaxError"
    by (simp_all add: JSON_parse_def json_whitespace_def json_value_start_def)
  from load_persisted_state [OF a b c d n n p q] a b c d p q
  show ?thesis unfolding present_def [symmetric] Let_def by blast
qed

section \<open>Writing the persisted state\<close>

lemma handle_behavior_version:
  "metricsVersion (handle_behavior e h) = metricsVersion h
     \<Longrightarrow> metrics (handle_behavior e h) = metrics h"
  by (cases e)
     (auto simp: onHoverStart_def onHoverEnd_def onMouseMove_def onClick_def
        onApproachRetreat_def resetProfile_def setMetrics_def Let_def
        split: option.splits prod.splits if_splits)

lemma dispatch_behavior_inv:
  assumes "behavior_world_inv stringify componentId w"
  shows "behavior_world_inv stringify componentId (dispatch_behavior stringify componentId e w)"
proof (cases "metricsVersion (handle_behavior e (fst w)) = metricsVersion (fst w)")
  case True
  then have ne: "e \<noteq> ResetProfile"
    by (auto simp: resetProfile_def setMetrics_def)
  from True handle_behavior_version [of e "fst w"] assms ne show ?thesis
    by (simp add: dispatch_behavior_def behavior_world_inv_def Let_def)
next
  case False
  then show ?thesis
    by (simp add: dispatch_behavior_def behavior_world_inv_def persistMetrics_def Let_def)
qed

lemma runWorld_behavior_inv:
  "behavior_world_inv stringify componentId w
     \<Longrightarrow> behavior_world_inv stringify componentId
           (runWorld_behavior stringify componentId es w)"
  by (induction es arbitrary: w) (simp_all add: dispatch_behavior_inv)

lemma mount_behavior_inv:
  "mount_behavior decode stringify componentId localStorage = Inr w
     \<Longrightarrow> behavior_world_inv stringify componentId w"
  by (auto simp: mount_behavior_def behavior_world_inv_def persistMetrics_def
      initialBehaviorHook_def split: sum.splits)

lemma handle_memory_version:
  "memoryVersion (handle_memory e h) = memoryVersion h
     \<Longrightarrow> memory (handle_memory e h) = memory h"
  by (cases e)
     (auto simp: onEnter_def onLeave_def onMouseMove_memory_def onScroll_memory_def
        resetMemory_def setMemory_def setCurrentSession_def Let_def split: if_splits)

lemma dispatch_memory_inv:
  assumes "memory_world_inv stringify cardId w"
  shows "memory_world_inv stringify cardId (dispatch_memory stringify cardId e w)"
proof (cases "memoryVersion (handle_memory e (fst w)) = memoryVersion (fst w)")
  case True
  then have ne: "e \<noteq> ResetMemory"
    by (auto simp: resetMemory_def setMemory_def)
  from True handle_memory_version [of e "fst w"] assms ne show ?thesis
    by (simp add: dispatch_memory_def memory_world_inv_def Let_def)
next
  case False
  then show ?thesis
    by (simp add: dispatch_memory_def memory_world_inv_def persistMemory_def Let_def)
qed

lemma runWorld_memory_inv:
  "memory_world_inv stringify cardId w
     \<Longrightarrow> memory_world_inv stringify cardId (runWorld_memory stringify cardId es w)"
  by (induction es arbitrary: w) (simp_all add: dispatch_memory_inv)

lemma mount_memory_inv:
  "mount_memory decode stringify cardId localStorage = Inr w
     \<Longrightarrow> memory_world_inv stringify cardId w"
  by (auto simp: mount_memory_def memory_world_inv_def persistMemory_def
      initialMemoryHook_def split: sum.splits)

lemma runWorld_intent_storage: "snd (runWorld_intent surfaceId es w) = snd w"
  by (induction es arbitrary: w) (simp_all add: dispatch_intent_def)

text \<open>A reload: mounting again on a storage that holds the serialisation of \<open>m\<close>.\<close>

lemma remount_behavior:
  assumes "localStorage (storageKey_behavior componentId) = Some (stringify m)"
    and "stringify m \<noteq> []" and "JSON_parse decode (stringify m) = Inr m"
  shows "mount_behavior decode stringify componentId localStorage
           = Inr (initialBehaviorHook m, localStorage)"
proof -
  from assms(1) have "localStorage(storageKey_behavior componentId \<mapsto> stringify m) = localStorage"
    by (rule map_upd_triv)
  with assms show ?thesis
    by (simp add: mount_behavior_def loadMetrics_def persistMetrics_def)
qed

lemma remount_memory:
  assumes "localStorage (storageKey_memory cardId) = Some (stringify m)"
    and "stringify m \<noteq> []" and "JSON_parse decode (stringify m) = Inr m"
  shows "mount_memory decode stringify cardId localStorage
           = Inr (initialMemoryHook m, localStorage)"
proof -
  from assms(1) have "localStorage(storageKey_memory cardId \<mapsto> stringify m) = localStorage"
    by (rule map_upd_triv)
  with assms show ?thesis
    by (simp add: mount_memory_def loadMemory_def persistMemory_def)
qed

text \<open>
  C7, as the claim states it, fails for the Intent Detection: after a scroll event has
  changed its accumulator, the storage, empty before, is still empty.
\<close>

theorem intent_not_persisted_counterexample:
  "snd (runWorld_intent ''surface'' [Scroll 1100 40 1000]
          (mount_intent 1000 1000 1000 1000 ''surface'' Map.empty)) = Map.empty
   \<and> map ScrollPattern.velocity (scrollPatterns (signals (fst
        (runWorld_intent ''surface'' [Scroll 1100 40 1000]
           (mount_intent 1000 1000 1000 1000 ''surface'' Map.empty))))) = [400]"
  by (simp add: mount_intent_def dispatch_intent_def initialIntentHook_def initialSignals_def
      onScroll_intent_def setSignals_def slice_last_def js_div_def Let_def)

text \<open>
  C7, amended. The Behavior Profile and the Interaction Memory write their full
  serialised accumulator under the key made of their fixed prefix (\<open>cognitive_btn_\<close>,
  \<open>memory_card_\<close>) and the instance id, on mount and after every operation that replaces
  the accumulator: after any sequence of operations, resets included, the entry under
  that key is the serialisation of the current accumulator. So the accumulator survives a
  reload of the same id: where \<open>JSON.parse\<close> reads the accumulator \<open>m\<close> back from its
  serialisation (a non-empty text), mounting the hook again on the storage the run has
  left gives a hook whose accumulator is \<open>m\<close>, and leaves the storage as it is. The
  Intent Detection never writes to the storage.
\<close>

theorem accumulator_persisted:
  assumes "mount_behavior decode stringify componentId localStorage = Inr w"
    and "runWorld_behavior stringify componentId bes w = (h, ls)"
    and "stringify (metrics h) \<noteq> []"
    and "JSON_parse decode (stringify (metrics h)) = Inr (metrics h)"
    and "mount_memory decode' stringify' cardId localStorage' = Inr w'"
    and "runWorld_memory stringify' cardId mes w' = (h', ls')"
    and "stringify' (memory h') \<noteq> []"
    and "JSON_parse decode' (stringify' (memory h')) = Inr (memory h')"
  shows "ls (''cognitive_btn_'' @ componentId) = Some (stringify (metrics h))
         \<and> mount_behavior decode stringify componentId ls
             = Inr (initialBehaviorHook (metrics h), ls)
         \<and> ls' (''memory_card_'' @ cardId) = Some (stringify' (memory h'))
         \<and> mount_memory decode' stringify' cardId ls'
             = Inr (initialMemoryHook (memory h'), ls')
         \<and> snd (runWorld_intent surfaceId ies
                  (mount_intent t0 t1 t2 t3 surfaceId localStorage'')) = localStorage''"
proof -
  from runWorld_behavior_inv [OF mount_behavior_inv [OF assms(1)], of bes] assms(2)
  have b: "ls (storageKey_behavior componentId) = Some (stringify (metrics h))"
    by (simp add: behavior_world_inv_def)
  from runWorld_memory_inv [OF mount_memory_inv [OF assms(5)], of mes] assms(6)
  have m: "ls' (storageKey_memory cardId) = Some (stringify' (memory h'))"
    by (simp add: memory_world_inv_def)
  have i: "snd (runWorld_intent surfaceId ies
                  (mount_intent t0 t1 t2 t3 surfaceId localStorage'')) = localStorage''"
    by (simp add: runWorld_intent_storage mount_intent_def)
  have rb: "mount_behavior decode stringify componentId ls
              = Inr (initialBehaviorHook (metrics h), ls)"
    using b assms(3,4) by (rule remount_behavior)
  have rm: "mount_memory decode' stringify' cardId ls'
              = Inr (initialMemoryHook (memory h'), ls')"
    using m assms(7,8) by (rule remount_memory)
  from b m i rb rm
  show ?thesis by (simp add: storageKey_behavior_def storageKey_memory_def)
qed

lemma count_of_text_2: "count_of_text ''[1,1,0]'' = Some 2"
  by (simp add: count_of_text_def count_text_def Let_def numeral_2_eq_2)

lemma count_of_text_1: "count_of_text ''[1,0]'' = Some 1"
  by (simp add: count_of_text_def count_text_def Let_def)

theorem accumulator_persisted_witness:
  "(let wb = (initialBehaviorHook getDefaultMetrics, [''cognitive_btn_btn'' \<mapsto> ''[0]'']);
        hb = run_behavior [ApproachRetreat, ApproachRetreat] (fst wb);
        lb = [''cognitive_btn_btn'' \<mapsto> ''[1,1,0]''];
        wm = (initialMemoryHook getDefaultMemory, [''memory_card_card'' \<mapsto> ''[0]'']);
        hm = run_memory [Enter 1000, Leave 1200 3500 3500 3500] (fst wm);
        lm = [''memory_card_card'' \<mapsto> ''[1,0]'']
    in mount_behavior decode_retreats stringify_retreats ''btn'' Map.empty = Inr wb
       \<and> runWorld_behavior stringify_retreats ''btn'' [ApproachRetreat, ApproachRetreat] wb
           = (hb, lb)
       \<and> metrics hb = getDefaultMetrics\<lparr>approachRetreatCount := 2\<rparr>
       \<and> stringify_retreats (metrics hb) = ''[1,1,0]''
       \<and> JSON_parse decode_retreats ''[1,1,0]'' = Inr (metrics hb)
       \<and> mount_behavior decode_retreats stringify_retreats ''btn'' lb
           = Inr (initialBehaviorHook (metrics hb), lb)
       \<and> mount_memory decode_visits stringify_visits ''card'' Map.empty = Inr wm
       \<and> runWorld_memory stringify_visits ''card'' [Enter 1000, Leave 1200 3500 3500 3500] wm
           = (hm, lm)
       \<and> memory hm = one_session_memory
       \<and> stringify_visits (memory hm) = ''[1,0]''
       \<and> JSON_parse decode_visits ''[1,0]'' = Inr (memory hm)
       \<and> mount_memory decode_visits stringify_visits ''card'' lm
           = Inr (initialMemoryHook (memory hm), lm))"
proof -
  define wb :: "BehaviorHook \<times> Storage"
    where "wb = (initialBehaviorHook getDefaultMetrics, [''cognitive_btn_btn'' \<mapsto> ''[0]''])"
  define hb where "hb = run_behavior [ApproachRetreat, ApproachRetreat] (fst wb)"
  define lb :: Storage where "lb = [''cognitive_btn_btn'' \<mapsto> ''[1,1,0]'']"
  define wm :: "MemoryHook \<times> Storage"
    where "wm = (initialMemoryHook getDefaultMemory, [''memory_card_card'' \<mapsto> ''[0]''])"
  define hm where "hm = run_memory [Enter 1000, Leave 1200 3500 3500 3500] (fst wm)"
  define lm :: Storage where "lm = [''memory_card_card'' \<mapsto> ''[1,0]'']"
  have mb: "metrics hb = getDefaultMetrics\<lparr>approachRetreatCount := 2\<rparr>"
    by (simp add: hb_def wb_def initialBehaviorHook_def onApproachRetreat_def setMetrics_def
        getDefaultMetrics_def)
  have vb: "metricsVersion hb = 2"
    by (simp add: hb_def wb_def initialBehaviorHook_def onApproachRetreat_def setMetrics_def)
  have sb: "stringify_retreats (metrics hb) = ''[1,1,0]''"
    by (simp add: mb stringify_retreats_def count_text_def numeral_2_eq_2)
  have a1: "mount_behavior decode_retreats stringify_retreats ''btn'' Map.empty = Inr wb"
    by (simp add: mount_behavior_def loadMetrics_def persistMetrics_def storageKey_behavior_def
        stringify_retreats_def count_text_def getDefaultMetrics_def wb_def)
  have a2: "runWorld_behavior stringify_retreats ''btn'' [ApproachRetreat, ApproachRetreat] wb
              = (hb, lb)"
    by (simp add: dispatch_behavior_def hb_def lb_def wb_def initialBehaviorHook_def
        onApproachRetreat_def setMetrics_def persistMetrics_def storageKey_behavior_def
        stringify_retreats_def count_text_def getDefaultMetrics_def Let_def numeral_2_eq_2)
  have a3: "stringify_retreats (metrics hb) \<noteq> []" by (simp add: sb)
  have pb: "JSON_parse decode_retreats ''[1,1,0]'' = Inr (metrics hb)"
    by (simp add: JSON_parse_def json_whitespace_def json_value_start_def decode_retreats_def
        count_of_text_2 mb)
  then have a4: "JSON_parse decode_retreats (stringify_retreats (metrics hb)) = Inr (metrics hb)"
    by (simp add: sb)
  have mm: "memory hm = one_session_memory"
    by (simp add: hm_def wm_def initialMemoryHook_def onEnter_def onLeave_def setMemory_def
        setCurrentSession_def getDefaultMemory_def isReturningUser_def timeSinceLastVisit_def
        calculateAverageMovement_def slice_last_def one_session_memory_def Let_def)
  have sm: "stringify_visits (memory hm) = ''[1,0]''"
    by (simp add: mm stringify_visits_def one_session_memory_def count_text_def)
  have b1: "mount_memory decode_visits stringify_visits ''card'' Map.empty = Inr wm"
    by (simp add: mount_memory_def loadMemory_def persistMemory_def storageKey_memory_def
        stringify_visits_def count_text_def getDefaultMemory_def wm_def)
  have b2: "runWorld_memory stringify_visits ''card'' [Enter 1000, Leave 1200 3500 3500 3500] wm
              = (hm, lm)"
  proof -
    have v: "memoryVersion hm = 1" "memoryVersion (onEnter 1000 (fst wm)) = 0"
      by (simp_all add: hm_def wm_def initialMemoryHook_def onEnter_def onLeave_def
          setMemory_def setCurrentSession_def Let_def)
    have h1: "handle_memory (Leave 1200 3500 3500 3500) (onEnter 1000 (fst wm)) = hm"
      by (simp add: hm_def)
    show ?thesis
      using v h1 sm
      by (simp add: dispatch_memory_def persistMemory_def storageKey_memory_def lm_def Let_def)
         (simp add: wm_def initialMemoryHook_def onEnter_def)
  qed
  have b3: "stringify_visits (memory hm) \<noteq> []" by (simp add: sm)
  have pm: "JSON_parse decode_visits ''[1,0]'' = Inr (memory hm)"
    by (simp add: JSON_parse_def json_whitespace_def json_value_start_def decode_visits_def
        count_of_text_1 mm)
  then have b4: "JSON_parse decode_visits (stringify_visits (memory hm)) = Inr (memory hm)"
    by (simp add: sm)
  from accumulator_persisted [OF a1 a2 a3 a4 b1 b2 b3 b4]
  have r1: "mount_behavior decode_retreats stringify_retreats ''btn'' lb
              = Inr (initialBehaviorHook (metrics hb), lb)"
    and r2: "mount_memory decode_visits stringify_visits ''card'' lm
              = Inr (initialMemoryHook (memory hm), lm)"
    by blast+
  show ?thesis
    unfolding Let_def wb_def [symmetric] hb_def [symmetric] lb_def [symmetric]
      wm_def [symmetric] hm_def [symmetric] lm_def [symmetric]
    by (intro conjI a1 a2 mb sb pb r1 b1 b2 mm sm pm r2)
qed

end
